theory Spec2Isabelle
  imports Main "HOL-Library.Multiset"
begin

section \<open>Values and records\<close>

text \<open>
  The server of \<^verbatim>\<open>src/server.js\<close> keeps document metadata either in a Firestore
  collection (\<^verbatim>\<open>db\<close> is set) or in the JSON file \<^verbatim>\<open>uploads/local_metadata.json\<close>
  (\<^verbatim>\<open>db\<close> is \<^verbatim>\<open>null\<close>). Every route handler is modelled as a function from the state
  of the world before the request to the response and the state after it. What the
  environment decides during a request (the clock, the random numbers, the identity
  provider, whether a call to Firestore or to the file system throws) is an explicit
  input, the record \<open>env\<close>.
\<close>

text \<open>
  The \<^verbatim>\<open>status\<close> of a record is whatever JSON value the client sent in the body of the
  PATCH request. Numbers are restricted to integers, and arrays and objects are one
  value \<open>JObject\<close>; \<open>JUndefined\<close> is an absent property.
\<close>

datatype jsval = JUndefined | JNull | JBool bool | JNum int | JStr string | JObject

text \<open>JavaScript truthiness, as the test \<^verbatim>\<open>!status\<close> reads it.\<close>

fun truthy :: "jsval \<Rightarrow> bool" where
  "truthy JUndefined = False"
| "truthy JNull = False"
| "truthy (JBool b) = b"
| "truthy (JNum n) = (n \<noteq> 0)"
| "truthy (JStr s) = (s \<noteq> [])"
| "truthy JObject = True"

text \<open>
  \<^verbatim>\<open>FieldValue.serverTimestamp()\<close> reads no clock: it returns a sentinel that Firestore
  replaces by the server's time when the document is written. Outside Firestore the
  sentinel stays what it is (an object without properties, \<^verbatim>\<open>{}\<close> in JSON).
\<close>

datatype tsval = ServerTimestamp | Timestamp nat

text \<open>
  The key of \<^verbatim>\<open>orderBy('uploadedAt')\<close>: a resolved timestamp by its time; the unresolved
  sentinel, which no document of the Firestore collection holds, below all of them.
\<close>

fun ts_rank :: "tsval \<Rightarrow> nat" where
  "ts_rank ServerTimestamp = 0"
| "ts_rank (Timestamp t) = Suc t"

text \<open>\<^verbatim>\<open>docData\<close> of the upload handler (server.js, lines 165-175).\<close>

record docData =
  userId :: string
  userEmail :: string
  fileName :: string
  originalName :: string
  fileType :: string
  fileSize :: nat
  filePath :: string
  status :: jsval
  uploadedAt :: tsval

text \<open>A stored document: its id and its data (\<^verbatim>\<open>{ id, ...docData }\<close>).\<close>

type_synonym doc = "string \<times> docData"

text \<open>The decoded token that \<^verbatim>\<open>verifyToken\<close> attaches as \<^verbatim>\<open>req.user\<close>.\<close>

record user =
  uid :: string
  email :: string
  emailVerified :: bool
  displayName :: string
  picture :: string

text \<open>
  The file part of the multipart body as multer sees it, and \<^verbatim>\<open>req.file\<close> once the disk
  storage has written it (\<^verbatim>\<open>size\<close> is named \<open>size_bytes\<close> here).
\<close>

record filepart =
  originalname :: string
  mimetype :: string
  size_bytes :: nat

record reqfile = filepart +
  filename :: string
  path :: string

datatype response =
    Msg nat bool string
  | Created string string docData
  | Documents "doc list"
  | Document string docData
  | Profile user

text \<open>
  \<open>Msg c s m\<close> is \<^verbatim>\<open>res.status(c).json({ success: s, message: m })\<close>; \<open>Created m i d\<close> is
  the 201 answer of the upload with message, id and data; the other three are 200.
\<close>

fun status_code :: "response \<Rightarrow> nat" where
  "status_code (Msg c s m) = c"
| "status_code (Created m i d) = 201"
| "status_code (Documents ds) = 200"
| "status_code (Document i d) = 200"
| "status_code (Profile u) = 200"

section \<open>The world and the environment\<close>

text \<open>
  The metadata file is absent, unreadable (reading or parsing it throws), or holds an
  array of records. Files that parse to something else are outside the model.
\<close>

datatype metafile = Missing | Unreadable | Stored "doc list"

record world =
  firestore :: bool
  coll :: "doc list"
  local_metadata :: metafile
  disk :: "string set"

text \<open>
  \<open>firestore\<close> says whether \<^verbatim>\<open>db\<close> is set; \<open>coll\<close> is the Firestore collection
  \<^verbatim>\<open>documents\<close>; \<open>disk\<close> is the set of paths of the files that exist.
\<close>

record env =
  verifyIdToken :: "string \<Rightarrow> user option"
  now_name :: nat
  rnd_name :: nat
  now_id :: nat
  rnd_id :: nat
  auto_id :: string
  server_time :: nat
  get_ok :: bool
  put_ok :: bool
  write_ok :: bool
  unlink_ok :: bool

text \<open>
  \<open>verifyIdToken\<close> is the identity provider (\<open>None\<close>: the promise rejects);
  \<open>now_name\<close>, \<open>rnd_name\<close> are \<^verbatim>\<open>Date.now()\<close> and \<^verbatim>\<open>Math.round(Math.random() * 1e9)\<close>
  in multer's \<^verbatim>\<open>filename\<close>, \<open>now_id\<close>, \<open>rnd_id\<close> the same two calls in the local id;
  \<open>auto_id\<close> and \<open>server_time\<close> are the id and the timestamp Firestore assigns;
  \<open>get_ok\<close> and \<open>put_ok\<close> say whether the read and the write call to Firestore
  return rather than throw (a write also throws when Firestore refuses the data, as it
  does for a token without \<^verbatim>\<open>email\<close>, whose \<^verbatim>\<open>userEmail\<close> is undefined), \<open>write_ok\<close> and
  \<open>unlink_ok\<close> the same for \<^verbatim>\<open>fs.writeFileSync\<close> on the metadata file and
  \<^verbatim>\<open>fs.unlinkSync\<close>.
\<close>

section \<open>Strings\<close>

fun startsWith :: "string \<Rightarrow> string \<Rightarrow> bool" where
  "startsWith s [] = True"
| "startsWith [] (p # ps) = False"
| "startsWith (c # cs) (p # ps) = (c = p \<and> startsWith cs ps)"

text \<open>The text of \<open>s\<close> before the first occurrence of \<open>sep\<close>.\<close>

fun upto_sep :: "string \<Rightarrow> string \<Rightarrow> string" where
  "upto_sep sep [] = []"
| "upto_sep sep (c # cs) = (if startsWith (c # cs) sep then [] else c # upto_sep sep cs)"

text \<open>
  \<^verbatim>\<open>authHeader.split('Bearer ')[1]\<close> for a header that starts with \<^verbatim>\<open>'Bearer '\<close>: what
  stands between the first separator and the next one.
\<close>

definition bearer_token :: "string \<Rightarrow> string" where
  "bearer_token h = upto_sep ''Bearer '' (drop 7 h)"

definition toLowerChar :: "char \<Rightarrow> char" where
  "toLowerChar c =
     (let n = (of_char c :: nat) in if 65 \<le> n \<and> n \<le> 90 then char_of (n + 32) else c)"

definition toLowerCase :: "string \<Rightarrow> string" where
  "toLowerCase s = map toLowerChar s"

text \<open>
  Node's \<^verbatim>\<open>path.extname\<close> (POSIX): in the last segment of the path, trailing slashes
  dropped, the text from the last dot on; empty when the segment has no dot, when its
  only dot is its first character, or when the segment is \<^verbatim>\<open>..\<close>.
\<close>

definition last_segment :: "string \<Rightarrow> string" where
  "last_segment p = rev (takeWhile (\<lambda>c. c \<noteq> CHR ''/'') (dropWhile (\<lambda>c. c = CHR ''/'') (rev p)))"

definition extname :: "string \<Rightarrow> string" where
  "extname p =
     (let b = last_segment p;
          suffix = takeWhile (\<lambda>c. c \<noteq> CHR ''.'') (rev b);
          stem = drop (Suc (length suffix)) (rev b)
      in if CHR ''.'' \<notin> set b \<or> stem = [] \<or> b = ''..'' then []
         else CHR ''.'' # rev suffix)"

text \<open>Decimal digits of a number, as string concatenation renders it.\<close>

fun dec :: "nat \<Rightarrow> string" where
  "dec n = (if n < 10 then [char_of (48 + n)] else dec (n div 10) @ [char_of (48 + n mod 10)])"

declare dec.simps [simp del]

section \<open>Authentication middleware (middleware/auth.js)\<close>

definition verifyToken :: "(string \<Rightarrow> user option) \<Rightarrow> string option \<Rightarrow> response + user" where
  "verifyToken verify authHeader =
     (case authHeader of
        None \<Rightarrow> Inl (Msg 401 False ''No token provided'')
      | Some h \<Rightarrow>
          if h = [] \<or> \<not> startsWith h ''Bearer '' then Inl (Msg 401 False ''No token provided'')
          else (case verify (bearer_token h) of
                  None \<Rightarrow> Inl (Msg 401 False ''Unauthorized'')
                | Some u \<Rightarrow> Inr u))"

section \<open>Upload pipeline: multer (server.js, lines 88-150)\<close>

definition MAX_FILE_SIZE_BYTES :: nat where
  "MAX_FILE_SIZE_BYTES = 10 * 1024 * 1024"

text \<open>\<^verbatim>\<open>path.join(__dirname, 'uploads')\<close>, with the server installed in \<^verbatim>\<open>/app\<close>.\<close>

definition UPLOAD_DIR :: string where
  "UPLOAD_DIR = ''/app/uploads''"

definition ALLOWED_EXTS :: "string set" where
  "ALLOWED_EXTS = {''.pdf'', ''.docx'', ''.txt''}"

definition ALLOWED_MIME :: "string set" where
  "ALLOWED_MIME =
     {''application/pdf'',
      ''application/vnd.openxmlformats-officedocument.wordprocessingml.document'',
      ''text/plain''}"

text \<open>\<^verbatim>\<open>fileFilter\<close>: both tests are computed and the file passes when both hold.\<close>

definition fileFilter :: "filepart \<Rightarrow> bool" where
  "fileFilter f =
     (let ext = toLowerCase (extname (originalname f));
          isExtOk = ext \<in> ALLOWED_EXTS;
          isMimeOk = mimetype f \<in> ALLOWED_MIME
      in isExtOk \<and> isMimeOk)"

datatype multer_error = INVALID_FILE_TYPE | LIMIT_FILE_SIZE

text \<open>
  \<^verbatim>\<open>upload.single('file')\<close> on a body that carries at most the one field \<^verbatim>\<open>file\<close>. The
  filter runs when the part starts; the size limit (multer's \<^verbatim>\<open>limits.fileSize\<close>, the
  greatest size accepted) is enforced while the bytes are written, and multer removes
  the partial file; a file that passes is on disk under the generated name. Without a
  file part multer calls the handler with \<^verbatim>\<open>req.file\<close> undefined.
\<close>

definition upload_single :: "env \<Rightarrow> filepart option \<Rightarrow> world \<Rightarrow> multer_error + (reqfile option \<times> world)" where
  "upload_single e part w =
     (case part of
        None \<Rightarrow> Inr (None, w)
      | Some f \<Rightarrow>
          if \<not> fileFilter f then Inl INVALID_FILE_TYPE
          else if MAX_FILE_SIZE_BYTES < size_bytes f then Inl LIMIT_FILE_SIZE
          else
            let ext = toLowerCase (extname (originalname f));
                unique = dec (now_name e) @ ''-'' @ dec (rnd_name e);
                fname = ''upload-'' @ unique @ ext;
                p = UPLOAD_DIR @ ''/'' @ fname
            in Inr (Some \<lparr>originalname = originalname f, mimetype = mimetype f,
                          size_bytes = size_bytes f, filename = fname, path = p\<rparr>,
                    w\<lparr>disk := insert p (disk w)\<rparr>))"

text \<open>The error-handling middleware (server.js, lines 423-439) on multer's two errors.\<close>

fun error_handler :: "multer_error \<Rightarrow> response" where
  "error_handler LIMIT_FILE_SIZE = Msg 413 False ''File too large. Max 10 MB''"
| "error_handler INVALID_FILE_TYPE =
     Msg 400 False ''Invalid file type. Only PDF, DOCX, and TXT allowed.''"

section \<open>The two stores\<close>

subsection \<open>Local metadata file (server.js, lines 105-122)\<close>

text \<open>A missing file and a file that cannot be read or parsed both read as the empty list.\<close>

definition readLocalMetadata :: "world \<Rightarrow> doc list" where
  "readLocalMetadata w =
     (case local_metadata w of Missing \<Rightarrow> [] | Unreadable \<Rightarrow> [] | Stored ds \<Rightarrow> ds)"

text \<open>A write that throws is caught inside the function: the caller sees no difference.\<close>

definition writeLocalMetadata :: "env \<Rightarrow> doc list \<Rightarrow> world \<Rightarrow> world" where
  "writeLocalMetadata e arr w = (if write_ok e then w\<lparr>local_metadata := Stored arr\<rparr> else w)"

fun findIndex :: "('a \<Rightarrow> bool) \<Rightarrow> 'a list \<Rightarrow> nat option" where
  "findIndex P [] = None"
| "findIndex P (x # xs) = (if P x then Some 0 else map_option Suc (findIndex P xs))"

text \<open>
  \<^verbatim>\<open>if (filePath && fs.existsSync(filePath)) fs.unlinkSync(filePath)\<close>; \<open>None\<close> when
  \<^verbatim>\<open>unlinkSync\<close> throws.
\<close>

definition remove_file :: "env \<Rightarrow> string \<Rightarrow> world \<Rightarrow> world option" where
  "remove_file e p w =
     (if p \<noteq> [] \<and> p \<in> disk w
      then (if unlink_ok e then Some (w\<lparr>disk := disk w - {p}\<rparr>) else None)
      else Some w)"

subsection \<open>Firestore, by its contract\<close>

text \<open>
  Each call returns \<open>None\<close> when it throws. \<^verbatim>\<open>add\<close> stores the data under the id that
  Firestore generates, the timestamp sentinel replaced by the server's time, and fails
  rather than overwrite a document; \<^verbatim>\<open>update\<close> fails when the document is gone.
\<close>

definition remote_add :: "env \<Rightarrow> docData \<Rightarrow> world \<Rightarrow> (string \<times> world) option" where
  "remote_add e d w =
     (if put_ok e \<and> auto_id e \<notin> fst ` set (coll w)
      then Some (auto_id e,
                 w\<lparr>coll := coll w @ [(auto_id e, d\<lparr>uploadedAt := Timestamp (server_time e)\<rparr>)]\<rparr>)
      else None)"

definition remote_get :: "env \<Rightarrow> string \<Rightarrow> world \<Rightarrow> doc option option" where
  "remote_get e i w = (if get_ok e then Some (find (\<lambda>d. fst d = i) (coll w)) else None)"

definition remote_update :: "env \<Rightarrow> string \<Rightarrow> jsval \<Rightarrow> world \<Rightarrow> world option" where
  "remote_update e i s w =
     (if put_ok e \<and> i \<in> fst ` set (coll w)
      then Some (w\<lparr>coll := map (\<lambda>d. if fst d = i then (fst d, (snd d)\<lparr>status := s\<rparr>) else d) (coll w)\<rparr>)
      else None)"

definition remote_delete :: "env \<Rightarrow> string \<Rightarrow> world \<Rightarrow> world option" where
  "remote_delete e i w =
     (if put_ok e then Some (w\<lparr>coll := filter (\<lambda>d. fst d \<noteq> i) (coll w)\<rparr>) else None)"

text \<open>
  \<^verbatim>\<open>orderBy('uploadedAt', 'desc')\<close> as an insertion sort. Documents with equal timestamps
  keep the order of the collection here; Firestore orders them by document name.
\<close>

fun insert_desc :: "doc \<Rightarrow> doc list \<Rightarrow> doc list" where
  "insert_desc d [] = [d]"
| "insert_desc d (x # xs) =
     (if ts_rank (uploadedAt (snd x)) \<le> ts_rank (uploadedAt (snd d)) then d # x # xs
      else x # insert_desc d xs)"

definition orderBy_uploadedAt_desc :: "doc list \<Rightarrow> doc list" where
  "orderBy_uploadedAt_desc ds = foldr insert_desc ds []"

definition remote_query :: "env \<Rightarrow> string \<Rightarrow> world \<Rightarrow> doc list option" where
  "remote_query e u w =
     (if get_ok e
      then Some (orderBy_uploadedAt_desc (filter (\<lambda>d. userId (snd d) = u) (coll w)))
      else None)"

section \<open>Route handlers (server.js, lines 155-405)\<close>

text \<open>
  Each handler body stands in a \<^verbatim>\<open>try\<close> block whose \<^verbatim>\<open>catch\<close> answers 500 with the
  route's fixed message: that is the \<open>None\<close> branch of every call that can throw.
\<close>

definition upload_handler :: "env \<Rightarrow> user \<Rightarrow> reqfile option \<Rightarrow> world \<Rightarrow> response \<times> world" where
  "upload_handler e u file w =
     (case file of
        None \<Rightarrow> (Msg 400 False ''No file uploaded'', w)
      | Some f \<Rightarrow>
          let docData = \<lparr>userId = uid u, userEmail = email u, fileName = filename f,
                         originalName = originalname f, fileType = mimetype f,
                         fileSize = size_bytes f, filePath = path f,
                         status = JStr ''uploaded'', uploadedAt = ServerTimestamp\<rparr>
          in if firestore w then
               (case remote_add e docData w of
                  None \<Rightarrow> (Msg 500 False ''Upload failed'', w)
                | Some (i, w') \<Rightarrow>
                    (Created ''File uploaded & metadata saved to Firestore'' i docData, w'))
             else
               let all = readLocalMetadata w;
                   i = ''local-'' @ dec (now_id e) @ ''-'' @ dec (rnd_id e)
               in (Created ''File uploaded & metadata saved locally'' i docData,
                   writeLocalMetadata e ((i, docData) # all) w))"

definition list_handler :: "env \<Rightarrow> user \<Rightarrow> world \<Rightarrow> response \<times> world" where
  "list_handler e u w =
     (if firestore w then
        (case remote_query e (uid u) w of
           None \<Rightarrow> (Msg 500 False ''Failed to list documents'', w)
         | Some docs \<Rightarrow> (Documents docs, w))
      else
        let docs = readLocalMetadata w;
            userDocs = filter (\<lambda>d. userId (snd d) = uid u) docs
        in (Documents userDocs, w))"

text \<open>
  \<open>Document i d\<close> stands for both shapes of the answer: Firestore's \<^verbatim>\<open>data\<close> is the
  document's data, the local branch's \<^verbatim>\<open>data\<close> is the stored object, its id included.
\<close>

definition get_handler :: "env \<Rightarrow> user \<Rightarrow> string \<Rightarrow> world \<Rightarrow> response \<times> world" where
  "get_handler e u i w =
     (if firestore w then
        (case remote_get e i w of
           None \<Rightarrow> (Msg 500 False ''Failed to fetch document'', w)
         | Some None \<Rightarrow> (Msg 404 False ''Document not found'', w)
         | Some (Some d) \<Rightarrow>
             if userId (snd d) \<noteq> uid u then (Msg 403 False ''Access denied'', w)
             else (Document (fst d) (snd d), w))
      else
        (case find (\<lambda>d. fst d = i) (readLocalMetadata w) of
           None \<Rightarrow> (Msg 404 False ''Document not found'', w)
         | Some found \<Rightarrow>
             if userId (snd found) \<noteq> uid u then (Msg 403 False ''Access denied'', w)
             else (Document (fst found) (snd found), w)))"

definition patch_handler :: "env \<Rightarrow> user \<Rightarrow> string \<Rightarrow> jsval \<Rightarrow> world \<Rightarrow> response \<times> world" where
  "patch_handler e u i s w =
     (if \<not> truthy s then (Msg 400 False ''Missing status value'', w)
      else if firestore w then
        (case remote_get e i w of
           None \<Rightarrow> (Msg 500 False ''Failed to update status'', w)
         | Some None \<Rightarrow> (Msg 404 False ''Document not found'', w)
         | Some (Some d) \<Rightarrow>
             if userId (snd d) \<noteq> uid u then (Msg 403 False ''Access denied'', w)
             else (case remote_update e i s w of
                     None \<Rightarrow> (Msg 500 False ''Failed to update status'', w)
                   | Some w' \<Rightarrow> (Msg 200 True ''Status updated'', w')))
      else
        let docs = readLocalMetadata w in
        (case findIndex (\<lambda>d. fst d = i) docs of
           None \<Rightarrow> (Msg 404 False ''Document not found'', w)
         | Some idx \<Rightarrow>
             if userId (snd (docs ! idx)) \<noteq> uid u then (Msg 403 False ''Access denied'', w)
             else (Msg 200 True ''Status updated locally'',
                   writeLocalMetadata e
                     (docs[idx := (fst (docs ! idx), (snd (docs ! idx))\<lparr>status := s\<rparr>)]) w)))"

text \<open>
  In both branches the file is unlinked before the metadata is deleted, and a throw of
  \<^verbatim>\<open>unlinkSync\<close> leaves the \<^verbatim>\<open>try\<close> block. When the Firestore delete throws, the file
  is already gone.
\<close>

definition delete_handler :: "env \<Rightarrow> user \<Rightarrow> string \<Rightarrow> world \<Rightarrow> response \<times> world" where
  "delete_handler e u i w =
     (if firestore w then
        (case remote_get e i w of
           None \<Rightarrow> (Msg 500 False ''Failed to delete document'', w)
         | Some None \<Rightarrow> (Msg 404 False ''Document not found'', w)
         | Some (Some d) \<Rightarrow>
             if userId (snd d) \<noteq> uid u then (Msg 403 False ''Access denied'', w)
             else (case remove_file e (filePath (snd d)) w of
                     None \<Rightarrow> (Msg 500 False ''Failed to delete document'', w)
                   | Some w1 \<Rightarrow>
                       (case remote_delete e i w1 of
                          None \<Rightarrow> (Msg 500 False ''Failed to delete document'', w1)
                        | Some w2 \<Rightarrow> (Msg 200 True ''Document deleted'', w2))))
      else
        let docs = readLocalMetadata w in
        (case findIndex (\<lambda>d. fst d = i) docs of
           None \<Rightarrow> (Msg 404 False ''Document not found'', w)
         | Some idx \<Rightarrow>
             if userId (snd (docs ! idx)) \<noteq> uid u then (Msg 403 False ''Access denied'', w)
             else (case remove_file e (filePath (snd (docs ! idx))) w of
                     None \<Rightarrow> (Msg 500 False ''Failed to delete document'', w)
                   | Some w1 \<Rightarrow>
                       let filtered = filter (\<lambda>d. fst d \<noteq> i) docs
                       in (Msg 200 True ''Document deleted locally'',
                           writeLocalMetadata e filtered w1))))"

section \<open>Requests\<close>

datatype route =
    PostUpload "filepart option"
  | GetDocuments
  | GetDocument string
  | PatchStatus string jsval
  | DeleteDocument string
  | GetProfile

record request =
  authorization :: "string option"
  route :: route

text \<open>
  The middleware stack of a protected route: \<^verbatim>\<open>verifyToken\<close> runs first and ends the
  request when it answers; on the upload route multer runs next, and its error goes to
  the error handler. What the application runs before the route is in \<open>app\<close> below.
\<close>

definition serve :: "env \<Rightarrow> request \<Rightarrow> world \<Rightarrow> response \<times> world" where
  "serve e rq w =
     (case verifyToken (verifyIdToken e) (authorization rq) of
        Inl r \<Rightarrow> (r, w)
      | Inr u \<Rightarrow>
          (case route rq of
             PostUpload part \<Rightarrow>
               (case upload_single e part w of
                  Inl err \<Rightarrow> (error_handler err, w)
                | Inr (file, w1) \<Rightarrow> upload_handler e u file w1)
           | GetDocuments \<Rightarrow> list_handler e u w
           | GetDocument i \<Rightarrow> get_handler e u i w
           | PatchStatus i s \<Rightarrow> patch_handler e u i s w
           | DeleteDocument i \<Rightarrow> delete_handler e u i w
           | GetProfile \<Rightarrow> (Profile u, w)))"

section \<open>The application\<close>

text \<open>
  \<^verbatim>\<open>app.use(express.json())\<close> (server.js, line 125) runs on every request before the
  route's own middleware. When it refuses the body (a JSON body that does not parse, or
  one over its size limit) its error goes to the error-handling middleware (lines
  423-439), which knows neither its code nor its message and answers 500; no route
  middleware runs. \<open>json_ok\<close> says that the body parser passes the request on: the
  request has no JSON body (a multipart upload has none) or a well-formed one.
\<close>

record incoming =
  json_ok :: bool
  req :: request

definition app :: "env \<Rightarrow> incoming \<Rightarrow> world \<Rightarrow> response \<times> world" where
  "app e m w =
     (if json_ok m then serve e (req m) w
      else (Msg 500 False ''Unexpected server error'', w))"

section \<open>The upload validation as the specification words it\<close>

datatype rejection = NoFileProvided | InvalidFileType | FileTooLarge

text \<open>
  Section 4.3 of the specification: the file must be present; then its lower-cased
  extension must be one of the three; then its declared content type must be one of
  the three; then its size must not exceed 10 MiB; the first failure rejects.
\<close>

definition validate_in_order :: "filepart option \<Rightarrow> rejection option" where
  "validate_in_order part =
     (case part of
        None \<Rightarrow> Some NoFileProvided
      | Some f \<Rightarrow>
          if toLowerCase (extname (originalname f)) \<notin> {''.pdf'', ''.docx'', ''.txt''}
          then Some InvalidFileType
          else if mimetype f \<notin> ALLOWED_MIME then Some InvalidFileType
          else if 10 * 1024 * 1024 < size_bytes f then Some FileTooLarge
          else None)"

fun rejection_response :: "rejection \<Rightarrow> response" where
  "rejection_response NoFileProvided = Msg 400 False ''No file uploaded''"
| "rejection_response InvalidFileType =
     Msg 400 False ''Invalid file type. Only PDF, DOCX, and TXT allowed.''"
| "rejection_response FileTooLarge = Msg 413 False ''File too large. Max 10 MB''"

section \<open>Sample data\<close>

definition alice :: user where
  "alice = \<lparr>uid = ''alice'', email = ''alice@example.org'', emailVerified = True,
            displayName = ''Alice'', picture = []\<rparr>"

definition bob :: user where
  "bob = \<lparr>uid = ''bob'', email = ''bob@example.org'', emailVerified = True,
          displayName = ''Bob'', picture = []\<rparr>"

text \<open>An identity provider that knows two tokens.\<close>

definition sample_idp :: "string \<Rightarrow> user option" where
  "sample_idp t = (if t = ''ta'' then Some alice else if t = ''tb'' then Some bob else None)"

text \<open>An environment in which no call throws.\<close>

definition env_ok :: env where
  "env_ok = \<lparr>verifyIdToken = sample_idp, now_name = 17, rnd_name = 5, now_id = 18, rnd_id = 6,
             auto_id = ''fs1'', server_time = 40, get_ok = True, put_ok = True,
             write_ok = True, unlink_ok = True\<rparr>"

definition sample_data :: "string \<Rightarrow> string \<Rightarrow> tsval \<Rightarrow> docData" where
  "sample_data owner p t =
     \<lparr>userId = owner, userEmail = owner @ ''@example.org'', fileName = p,
      originalName = ''a.pdf'', fileType = ''application/pdf'', fileSize = 3,
      filePath = p, status = JStr ''uploaded'', uploadedAt = t\<rparr>"

definition sample_docs :: "doc list" where
  "sample_docs = [(''d1'', sample_data ''alice'' ''/app/uploads/f1.pdf'' (Timestamp 1)),
                  (''d2'', sample_data ''alice'' ''/app/uploads/f2.pdf'' (Timestamp 2)),
                  (''d3'', sample_data ''bob'' ''/app/uploads/f3.pdf'' (Timestamp 3))]"

definition sample_disk :: "string set" where
  "sample_disk = {''/app/uploads/f1.pdf'', ''/app/uploads/f2.pdf'', ''/app/uploads/f3.pdf''}"

definition local_world :: world where
  "local_world = \<lparr>firestore = False, coll = [], local_metadata = Stored sample_docs,
                  disk = sample_disk\<rparr>"

definition remote_world :: world where
  "remote_world = \<lparr>firestore = True, coll = sample_docs, local_metadata = Missing,
                   disk = sample_disk\<rparr>"

definition sample_pdf :: filepart where
  "sample_pdf = \<lparr>originalname = ''Brief.PDF'', mimetype = ''application/pdf'', size_bytes = 1024\<rparr>"

text \<open>Environments in which one kind of call throws.\<close>

definition env_unlink_fails :: env where
  "env_unlink_fails = env_ok\<lparr>unlink_ok := False\<rparr>"

definition env_write_fails :: env where
  "env_write_fails = env_ok\<lparr>write_ok := False\<rparr>"

definition env_store_down :: env where
  "env_store_down = env_ok\<lparr>get_ok := False, put_ok := False\<rparr>"

definition env_later :: env where
  "env_later = env_ok\<lparr>now_name := 917, now_id := 918\<rparr>"

text \<open>Uploads that break one rule, or two.\<close>

definition renamed_exe :: filepart where
  "renamed_exe = \<lparr>originalname = ''tool.pdf'', mimetype = ''application/x-msdownload'',
                   size_bytes = 2048\<rparr>"

definition huge_pdf :: filepart where
  "huge_pdf = \<lparr>originalname = ''scan.pdf'', mimetype = ''application/pdf'',
                size_bytes = 11 * 1024 * 1024\<rparr>"

definition huge_exe :: filepart where
  "huge_exe = \<lparr>originalname = ''setup.exe'', mimetype = ''application/pdf'',
                size_bytes = 11 * 1024 * 1024\<rparr>"

text \<open>A local store before its first request, and a second upload that draws the same
  time and the same random number for its id as the first.\<close>

definition fresh_local :: world where
  "fresh_local = \<lparr>firestore = False, coll = [], local_metadata = Missing, disk = {}\<rparr>"

definition env_twin :: env where
  "env_twin = env_ok\<lparr>rnd_name := 9\<rparr>"

definition alice_upload :: request where
  "alice_upload = \<lparr>authorization = Some ''Bearer ta'', route = PostUpload (Some sample_pdf)\<rparr>"

definition bob_upload :: request where
  "bob_upload = \<lparr>authorization = Some ''Bearer tb'', route = PostUpload (Some sample_pdf)\<rparr>"

section \<open>Observations used in the statements\<close>

text \<open>The records of the backend that is selected.\<close>

definition stored_docs :: "world \<Rightarrow> doc list" where
  "stored_docs w = (if firestore w then coll w else readLocalMetadata w)"

text \<open>A list of records ordered by \<^verbatim>\<open>uploadedAt\<close>, descending.\<close>

definition newest_first :: "doc list \<Rightarrow> bool" where
  "newest_first ds =
     sorted_wrt (\<lambda>a b. ts_rank (uploadedAt (snd b)) \<le> ts_rank (uploadedAt (snd a))) ds"

text \<open>
  The states the server itself produces: it starts on a local store without records (no
  metadata file, or one that reads as the empty list) and every request is a step.
\<close>

inductive reachable :: "world \<Rightarrow> bool" where
  start: "readLocalMetadata w = [] \<Longrightarrow> reachable w"
| step: "reachable w \<Longrightarrow> reachable (snd (app e m w))"

text \<open>The records of a metadata file that carry the unresolved timestamp sentinel.\<close>

definition sentinel_only :: "doc list \<Rightarrow> bool" where
  "sentinel_only ds = list_all (\<lambda>d. uploadedAt (snd d) = ServerTimestamp) ds"

text \<open>
  Calls served by one process. The local branch of each handler is one synchronous
  block (\<^verbatim>\<open>readFileSync\<close>, the change, \<^verbatim>\<open>writeFileSync\<close>, no \<^verbatim>\<open>await\<close> between them), so
  calls that are in flight together are served one after the other, in some order:
  \<open>run\<close> serves a list of calls, each with the environment it meets, in the list's
  order.
\<close>

fun run :: "(env \<times> request) list \<Rightarrow> world \<Rightarrow> world" where
  "run [] w = w"
| "run (c # cs) w = run cs (snd (serve (fst c) (snd c) w))"

text \<open>
  A create call that reaches the local store's write: an authenticated upload of a
  file that passes multer, with a metadata file that can be written.
\<close>

definition valid_create :: "env \<times> request \<Rightarrow> bool" where
  "valid_create c =
     (case verifyToken (verifyIdToken (fst c)) (authorization (snd c)) of
        Inl r \<Rightarrow> False
      | Inr u \<Rightarrow>
          (case route (snd c) of
             PostUpload (Some f) \<Rightarrow>
               fileFilter f \<and> size_bytes f \<le> MAX_FILE_SIZE_BYTES \<and> write_ok (fst c)
           | _ \<Rightarrow> False))"

text \<open>The id that the local branch of the upload forms in the environment \<open>e\<close>.\<close>

definition local_id :: "env \<Rightarrow> string" where
  "local_id e = ''local-'' @ dec (now_id e) @ ''-'' @ dec (rnd_id e)"

section \<open>Auxiliary facts\<close>

lemma findIndex_None: "(findIndex P xs = None) = (find P xs = None)"
  by (induction xs) auto

lemma findIndex_Some:
  "findIndex P xs = Some n \<Longrightarrow> n < length xs \<and> find P xs = Some (xs ! n)"
  by (induction xs arbitrary: n) (auto split: if_splits)

lemma find_findIndex:
  "find P xs = Some d \<Longrightarrow> \<exists>n. findIndex P xs = Some n \<and> n < length xs \<and> xs ! n = d"
  by (induction xs) (auto split: if_splits)

lemma find_Some_fst: "find (\<lambda>d. fst d = i) ds = Some d \<Longrightarrow> fst d = i \<and> d \<in> set ds"
  by (induction ds) (auto split: if_splits)

lemma mset_insert_desc: "mset (insert_desc d xs) = add_mset d (mset xs)"
  by (induction xs) auto

lemma set_insert_desc: "set (insert_desc d xs) = insert d (set xs)"
  by (induction xs) auto

lemma newest_first_insert_desc: "newest_first xs \<Longrightarrow> newest_first (insert_desc d xs)"
  by (induction xs) (auto simp: newest_first_def set_insert_desc)

lemma mset_orderBy: "mset (orderBy_uploadedAt_desc ds) = mset ds"
  by (induction ds) (auto simp: orderBy_uploadedAt_desc_def mset_insert_desc)

lemma newest_first_orderBy: "newest_first (orderBy_uploadedAt_desc ds)"
proof (induction ds)
  case Nil
  show ?case by (simp add: orderBy_uploadedAt_desc_def newest_first_def)
next
  case (Cons d ds)
  then show ?case by (simp add: orderBy_uploadedAt_desc_def newest_first_insert_desc)
qed

lemma newest_first_filter: "newest_first ds \<Longrightarrow> newest_first (filter P ds)"
  by (simp add: newest_first_def sorted_wrt_filter)

lemma serve_authenticated:
  "verifyToken (verifyIdToken e) (authorization rq) = Inr u \<Longrightarrow>
   serve e rq w =
     (case route rq of
        PostUpload part \<Rightarrow>
          (case upload_single e part w of
             Inl err \<Rightarrow> (error_handler err, w)
           | Inr (file, w1) \<Rightarrow> upload_handler e u file w1)
      | GetDocuments \<Rightarrow> list_handler e u w
      | GetDocument i \<Rightarrow> get_handler e u i w
      | PatchStatus i s \<Rightarrow> patch_handler e u i s w
      | DeleteDocument i \<Rightarrow> delete_handler e u i w
      | GetProfile \<Rightarrow> (Profile u, w))"
  by (simp add: serve_def)

lemma alice_token: "verifyToken (verifyIdToken env_ok) (Some ''Bearer ta'') = Inr alice"
  by (simp add: verifyToken_def env_ok_def bearer_token_def sample_idp_def)

lemma bob_token: "verifyToken (verifyIdToken env_ok) (Some ''Bearer tb'') = Inr bob"
  by (simp add: verifyToken_def env_ok_def bearer_token_def sample_idp_def)

lemma find_d1: "find (\<lambda>d. fst d = ''d1'') sample_docs = Some (sample_docs ! 0)"
  by (simp add: sample_docs_def)

section \<open>Ownership\<close>

text \<open>
  Claim C1, amended. Let \<open>d\<close> be the record that the selected backend returns for the
  id \<open>i\<close> (in the Firestore backend the read must return rather than throw), and let
  its \<^verbatim>\<open>userId\<close> differ from the caller's \<^verbatim>\<open>uid\<close>. Then the get request, the delete request
  and the status update that carries a truthy status are answered 403
  \<^verbatim>\<open>Access denied\<close>, which is not the 404 of a missing record, and the world (metadata and
  files) is unchanged.
\<close>

theorem non_owner_access_denied:
  assumes auth: "verifyToken (verifyIdToken e) (authorization rq) = Inr u"
    and rt: "route rq = GetDocument i \<or> (route rq = PatchStatus i s \<and> truthy s)
              \<or> route rq = DeleteDocument i"
    and reach: "firestore w \<longrightarrow> get_ok e"
    and found: "find (\<lambda>d. fst d = i) (stored_docs w) = Some d"
    and other: "userId (snd d) \<noteq> uid u"
  shows "serve e rq w = (Msg 403 False ''Access denied'', w) \<and>
         status_code (fst (serve e rq w)) \<noteq> 404"
proof (cases "firestore w")
  case True
  with reach found have g: "remote_get e i w = Some (Some d)"
    by (simp add: remote_get_def stored_docs_def)
  from rt have "serve e rq w = (Msg 403 False ''Access denied'', w)"
    using True g other
    by (auto simp: serve_authenticated [OF auth] get_handler_def patch_handler_def
        delete_handler_def)
  then show ?thesis by simp
next
  case False
  with found have f: "find (\<lambda>d. fst d = i) (readLocalMetadata w) = Some d"
    by (simp add: stored_docs_def)
  then obtain n where n: "findIndex (\<lambda>d. fst d = i) (readLocalMetadata w) = Some n"
      "readLocalMetadata w ! n = d"
    using find_findIndex by fastforce
  from rt have "serve e rq w = (Msg 403 False ''Access denied'', w)"
    using False f n other
    by (auto simp: serve_authenticated [OF auth] get_handler_def patch_handler_def
        delete_handler_def Let_def)
  then show ?thesis by simp
qed

theorem non_owner_access_denied_witness:
  "serve env_ok \<lparr>authorization = Some ''Bearer tb'', route = GetDocument ''d1''\<rparr> local_world
     = (Msg 403 False ''Access denied'', local_world) \<and>
   serve env_ok \<lparr>authorization = Some ''Bearer tb'', route = PatchStatus ''d1'' (JStr ''reviewed'')\<rparr>
       remote_world
     = (Msg 403 False ''Access denied'', remote_world) \<and>
   serve env_ok \<lparr>authorization = Some ''Bearer tb'', route = DeleteDocument ''d1''\<rparr> local_world
     = (Msg 403 False ''Access denied'', local_world)"
proof -
  have l: "find (\<lambda>d. fst d = ''d1'') (stored_docs local_world) = Some (sample_docs ! 0)"
    by (simp add: stored_docs_def local_world_def readLocalMetadata_def find_d1)
  have r: "find (\<lambda>d. fst d = ''d1'') (stored_docs remote_world) = Some (sample_docs ! 0)"
    by (simp add: stored_docs_def remote_world_def find_d1)
  have o: "userId (snd (sample_docs ! 0)) \<noteq> uid bob"
    by (simp add: sample_docs_def sample_data_def bob_def)
  have gl: "firestore local_world \<longrightarrow> get_ok env_ok" by (simp add: local_world_def)
  have gr: "firestore remote_world \<longrightarrow> get_ok env_ok" by (simp add: env_ok_def)
  have t: "truthy (JStr ''reviewed'')" by simp
  show ?thesis
    using non_owner_access_denied [of env_ok "\<lparr>authorization = Some ''Bearer tb'', route = GetDocument ''d1''\<rparr>"
        bob "''d1''" JNull local_world "sample_docs ! 0"]
      non_owner_access_denied [of env_ok "\<lparr>authorization = Some ''Bearer tb'', route = PatchStatus ''d1'' (JStr ''reviewed'')\<rparr>"
        bob "''d1''" "JStr ''reviewed''" remote_world "sample_docs ! 0"]
      non_owner_access_denied [of env_ok "\<lparr>authorization = Some ''Bearer tb'', route = DeleteDocument ''d1''\<rparr>"
        bob "''d1''" JNull local_world "sample_docs ! 0"]
      bob_token l r o gl gr t
    by simp
qed

text \<open>
  The claim as stated fails for a status update without a status value: the handler
  tests the body before it looks the record up, so a caller who does not own the record
  gets 400 and not 403.
\<close>

theorem non_owner_patch_without_status:
  "verifyToken (verifyIdToken env_ok) (Some ''Bearer tb'') = Inr bob \<and>
   find (\<lambda>d. fst d = ''d1'') (stored_docs local_world) = Some (sample_docs ! 0) \<and>
   userId (snd (sample_docs ! 0)) \<noteq> uid bob \<and>
   serve env_ok \<lparr>authorization = Some ''Bearer tb'', route = PatchStatus ''d1'' JUndefined\<rparr>
       local_world
     = (Msg 400 False ''Missing status value'', local_world)"
  by (simp add: bob_token stored_docs_def local_world_def readLocalMetadata_def find_d1
      serve_def patch_handler_def)
    (simp add: sample_docs_def sample_data_def bob_def)

text \<open>
  The guard holds of every caller and every record: a status update without a truthy
  status value is answered 400 before any lookup, and nothing changes.
\<close>

lemma patch_without_status_is_400:
  assumes "verifyToken (verifyIdToken e) (authorization rq) = Inr u"
    and "route rq = PatchStatus i s" and "\<not> truthy s"
  shows "serve e rq w = (Msg 400 False ''Missing status value'', w)"
  using assms by (simp add: serve_def patch_handler_def)

lemma alice_docs: "filter (\<lambda>d. userId (snd d) = uid alice) sample_docs = [sample_docs ! 0, sample_docs ! 1]"
  by (simp add: sample_docs_def sample_data_def alice_def)

section \<open>Upload\<close>

lemma fileFilter_iff:
  "fileFilter f = (toLowerCase (extname (originalname f)) \<in> ALLOWED_EXTS \<and> mimetype f \<in> ALLOWED_MIME)"
  by (simp add: fileFilter_def)

lemma upload_single_accepts:
  assumes "fileFilter f" and "size_bytes f \<le> MAX_FILE_SIZE_BYTES"
  shows "\<exists>rf p. upload_single e (Some f) w = Inr (Some rf, w\<lparr>disk := insert p (disk w)\<rparr>) \<and>
           originalname rf = originalname f \<and> mimetype rf = mimetype f \<and>
           size_bytes rf = size_bytes f \<and> path rf = p"
  using assms by (simp add: upload_single_def Let_def)

lemma ext_samples:
  "toLowerCase (extname ''Brief.PDF'') = ''.pdf''"
  "toLowerCase (extname ''tool.pdf'') = ''.pdf''"
  "toLowerCase (extname ''scan.pdf'') = ''.pdf''"
  "toLowerCase (extname ''setup.exe'') = ''.exe''"
  by code_simp+

lemma sample_pdf_ext: "toLowerCase (extname (originalname sample_pdf)) = ''.pdf''"
  by (simp add: sample_pdf_def ext_samples)

lemma sample_pdf_valid:
  "toLowerCase (extname (originalname sample_pdf)) \<in> ALLOWED_EXTS"
  "mimetype sample_pdf \<in> ALLOWED_MIME"
  "size_bytes sample_pdf \<le> MAX_FILE_SIZE_BYTES"
  by (simp_all add: sample_pdf_ext ALLOWED_EXTS_def)
    (simp_all add: sample_pdf_def ALLOWED_MIME_def MAX_FILE_SIZE_BYTES_def)

text \<open>
  Claim C3, amended. An authenticated upload whose file is present, has a lower-cased
  extension among \<^verbatim>\<open>.pdf\<close>, \<^verbatim>\<open>.docx\<close>, \<^verbatim>\<open>.txt\<close>, a declared content type in the whitelist
  and at most 10 MiB, and whose store call succeeds (the Firestore insert returns under
  a fresh id; the metadata file can be written), is answered 201 with the assigned id,
  and the store holds exactly one record more: its \<^verbatim>\<open>userId\<close> and \<^verbatim>\<open>userEmail\<close> are the
  principal's \<^verbatim>\<open>uid\<close> and \<^verbatim>\<open>email\<close>, its status is \<^verbatim>\<open>"uploaded"\<close>. The condition on the
  store call is needed: the section on uploads whose store call fails shows why.
\<close>

theorem valid_upload_creates_record:
  assumes auth: "verifyToken (verifyIdToken e) (authorization rq) = Inr u"
    and rt: "route rq = PostUpload (Some f)"
    and ext: "toLowerCase (extname (originalname f)) \<in> ALLOWED_EXTS"
    and mime: "mimetype f \<in> ALLOWED_MIME"
    and sz: "size_bytes f \<le> MAX_FILE_SIZE_BYTES"
    and store: "if firestore w then put_ok e \<and> auto_id e \<notin> fst ` set (coll w) else write_ok e"
  shows "\<exists>m i d w'. serve e rq w = (Created m i d, w') \<and>
           status_code (fst (serve e rq w)) = 201 \<and>
           userId d = uid u \<and> userEmail d = email u \<and> status d = JStr ''uploaded'' \<and>
           stored_docs w' =
             (if firestore w then stored_docs w @ [(i, d\<lparr>uploadedAt := Timestamp (server_time e)\<rparr>)]
              else (i, d) # stored_docs w)"
proof -
  from ext mime have "fileFilter f" by (simp add: fileFilter_iff)
  with sz obtain rf p where
    up: "upload_single e (Some f) w = Inr (Some rf, w\<lparr>disk := insert p (disk w)\<rparr>)"
    using upload_single_accepts by blast
  let ?w1 = "w\<lparr>disk := insert p (disk w)\<rparr>"
  have s: "serve e rq w = upload_handler e u (Some rf) ?w1"
    by (simp add: serve_authenticated [OF auth] rt up)
  show ?thesis
  proof (cases "firestore w")
    case True
    with store have "put_ok e" "auto_id e \<notin> fst ` set (coll w)" by simp_all
    with True show ?thesis
      by (simp add: s upload_handler_def remote_add_def stored_docs_def)
  next
    case False
    with store have "write_ok e" by simp
    with False show ?thesis
      by (simp add: s upload_handler_def Let_def writeLocalMetadata_def stored_docs_def
          readLocalMetadata_def)
  qed
qed

theorem valid_upload_creates_record_witness:
  "(\<exists>m i d w'. serve env_ok \<lparr>authorization = Some ''Bearer ta'', route = PostUpload (Some sample_pdf)\<rparr>
                   local_world = (Created m i d, w') \<and>
       status_code (fst (serve env_ok \<lparr>authorization = Some ''Bearer ta'', route = PostUpload (Some sample_pdf)\<rparr>
                   local_world)) = 201 \<and>
       userId d = ''alice'' \<and> userEmail d = ''alice@example.org'' \<and> status d = JStr ''uploaded'' \<and>
       stored_docs w' = (i, d) # sample_docs) \<and>
   (\<exists>m i d w'. serve env_ok \<lparr>authorization = Some ''Bearer tb'', route = PostUpload (Some sample_pdf)\<rparr>
                   remote_world = (Created m i d, w') \<and>
       status_code (fst (serve env_ok \<lparr>authorization = Some ''Bearer tb'', route = PostUpload (Some sample_pdf)\<rparr>
                   remote_world)) = 201 \<and>
       userId d = ''bob'' \<and> userEmail d = ''bob@example.org'' \<and> status d = JStr ''uploaded'' \<and>
       stored_docs w' = sample_docs @ [(i, d\<lparr>uploadedAt := Timestamp 40\<rparr>)])"
proof -
  have l: "if firestore local_world then put_ok env_ok \<and> auto_id env_ok \<notin> fst ` set (coll local_world)
           else write_ok env_ok"
    by (simp add: local_world_def env_ok_def)
  have r: "if firestore remote_world then put_ok env_ok \<and> auto_id env_ok \<notin> fst ` set (coll remote_world)
           else write_ok env_ok"
    by (simp add: remote_world_def env_ok_def sample_docs_def)
  have sl: "stored_docs local_world = sample_docs" "\<not> firestore local_world"
    by (simp_all add: stored_docs_def local_world_def readLocalMetadata_def)
  have sr: "stored_docs remote_world = sample_docs" "firestore remote_world"
    by (simp_all add: stored_docs_def remote_world_def)
  have a: "uid alice = ''alice''" "email alice = ''alice@example.org''"
    "uid bob = ''bob''" "email bob = ''bob@example.org''" "server_time env_ok = 40"
    by (simp_all add: alice_def bob_def env_ok_def)
  from valid_upload_creates_record [of env_ok
        "\<lparr>authorization = Some ''Bearer ta'', route = PostUpload (Some sample_pdf)\<rparr>"
        alice sample_pdf local_world] alice_token sample_pdf_valid l
  have 1: "\<exists>m i d w'. serve env_ok \<lparr>authorization = Some ''Bearer ta'', route = PostUpload (Some sample_pdf)\<rparr>
                   local_world = (Created m i d, w') \<and>
       status_code (fst (serve env_ok \<lparr>authorization = Some ''Bearer ta'', route = PostUpload (Some sample_pdf)\<rparr>
                   local_world)) = 201 \<and>
       userId d = ''alice'' \<and> userEmail d = ''alice@example.org'' \<and> status d = JStr ''uploaded'' \<and>
       stored_docs w' = (i, d) # sample_docs"
    by (simp add: sl a)
  from valid_upload_creates_record [of env_ok
        "\<lparr>authorization = Some ''Bearer tb'', route = PostUpload (Some sample_pdf)\<rparr>"
        bob sample_pdf remote_world] bob_token sample_pdf_valid r
  have 2: "\<exists>m i d w'. serve env_ok \<lparr>authorization = Some ''Bearer tb'', route = PostUpload (Some sample_pdf)\<rparr>
                   remote_world = (Created m i d, w') \<and>
       status_code (fst (serve env_ok \<lparr>authorization = Some ''Bearer tb'', route = PostUpload (Some sample_pdf)\<rparr>
                   remote_world)) = 201 \<and>
       userId d = ''bob'' \<and> userEmail d = ''bob@example.org'' \<and> status d = JStr ''uploaded'' \<and>
       stored_docs w' = sample_docs @ [(i, d\<lparr>uploadedAt := Timestamp 40\<rparr>)]"
    by (simp add: sr a)
  from 1 2 show ?thesis by (rule conjI)
qed

lemma validate_in_order_iff:
  "validate_in_order (Some f) =
     (if \<not> fileFilter f then Some InvalidFileType
      else if MAX_FILE_SIZE_BYTES < size_bytes f then Some FileTooLarge else None)"
  by (simp add: validate_in_order_def fileFilter_iff ALLOWED_EXTS_def MAX_FILE_SIZE_BYTES_def)

lemma sample_exts:
  "toLowerCase (extname (originalname renamed_exe)) = ''.pdf''"
  "toLowerCase (extname (originalname huge_pdf)) = ''.pdf''"
  "toLowerCase (extname (originalname huge_exe)) = ''.exe''"
  by (simp_all add: renamed_exe_def huge_pdf_def huge_exe_def ext_samples)

lemma sample_mimes:
  "mimetype renamed_exe \<notin> ALLOWED_MIME"
  "mimetype huge_pdf \<in> ALLOWED_MIME"
  by (simp_all add: renamed_exe_def huge_pdf_def ALLOWED_MIME_def)

lemma sample_sizes: "10485760 < size_bytes huge_pdf"
  by (simp add: huge_pdf_def)

lemma sample_validations:
  "validate_in_order None = Some NoFileProvided"
  "validate_in_order (Some renamed_exe) = Some InvalidFileType"
  "validate_in_order (Some huge_pdf) = Some FileTooLarge"
  "validate_in_order (Some huge_exe) = Some InvalidFileType"
  by (simp_all add: validate_in_order_def sample_exts sample_mimes sample_sizes)

text \<open>
  Claim C4. The answer of the upload route is the answer of the checks taken in the
  specification's order (file present, extension, content type, size), the first
  failure rejecting: the code tests extension and content type together in multer's
  filter, then the size, and the presence of the file last in the handler, which gives
  the same answer on every upload. An upload that breaks any rule is rejected with 400
  or 413 and leaves the world as it was: no metadata record and no file.
\<close>

theorem upload_validation_order:
  assumes auth: "verifyToken (verifyIdToken e) (authorization rq) = Inr u"
    and rt: "route rq = PostUpload part"
  shows "(\<forall>r. validate_in_order part = Some r \<longrightarrow>
            serve e rq w = (rejection_response r, w) \<and> 400 \<le> status_code (rejection_response r)) \<and>
         (validate_in_order part = None \<longrightarrow>
            (\<exists>m i d w'. serve e rq w = (Created m i d, w')) \<or>
            fst (serve e rq w) = Msg 500 False ''Upload failed'') \<and>
         (part = None \<or>
          (\<exists>f. part = Some f \<and>
             (toLowerCase (extname (originalname f)) \<notin> ALLOWED_EXTS \<or>
              mimetype f \<notin> ALLOWED_MIME \<or> MAX_FILE_SIZE_BYTES < size_bytes f)) \<longrightarrow>
            (\<exists>r. validate_in_order part = Some r \<and> serve e rq w = (rejection_response r, w)))"
proof -
  have rej: "serve e rq w = (rejection_response r, w) \<and> 400 \<le> status_code (rejection_response r)"
    if v: "validate_in_order part = Some r" for r
  proof (cases part)
    case None
    with v have "r = NoFileProvided" by (simp add: validate_in_order_def)
    with None show ?thesis
      by (simp add: serve_authenticated [OF auth] rt upload_single_def upload_handler_def)
  next
    case (Some f)
    with v show ?thesis
      by (auto simp: serve_authenticated [OF auth] rt upload_single_def validate_in_order_iff
          split: if_splits)
  qed
  have acc: "(\<exists>m i d w'. serve e rq w = (Created m i d, w')) \<or>
            fst (serve e rq w) = Msg 500 False ''Upload failed''"
    if v: "validate_in_order part = None"
  proof -
    from v obtain f where p: "part = Some f"
      by (cases part) (simp_all add: validate_in_order_def)
    with v have f: "part = Some f" "fileFilter f" "size_bytes f \<le> MAX_FILE_SIZE_BYTES"
      by (simp_all add: validate_in_order_iff split: if_splits)
    then obtain rf p where
      up: "upload_single e (Some f) w = Inr (Some rf, w\<lparr>disk := insert p (disk w)\<rparr>)"
      using upload_single_accepts by blast
    show ?thesis
      by (auto simp: serve_authenticated [OF auth] rt f up upload_handler_def Let_def
          split: option.splits)
  qed
  have viol: "\<exists>r. validate_in_order part = Some r"
    if "part = None \<or>
          (\<exists>f. part = Some f \<and>
             (toLowerCase (extname (originalname f)) \<notin> ALLOWED_EXTS \<or>
              mimetype f \<notin> ALLOWED_MIME \<or> MAX_FILE_SIZE_BYTES < size_bytes f))"
  proof (cases part)
    case None
    then show ?thesis by (simp add: validate_in_order_def)
  next
    case (Some f)
    with that have "\<not> fileFilter f \<or> MAX_FILE_SIZE_BYTES < size_bytes f"
      by (auto simp: fileFilter_iff)
    with Some show ?thesis by (auto simp: validate_in_order_iff)
  qed
  have A: "\<forall>r. validate_in_order part = Some r \<longrightarrow>
            serve e rq w = (rejection_response r, w) \<and> 400 \<le> status_code (rejection_response r)"
    using rej by blast
  have B: "validate_in_order part = None \<longrightarrow>
            (\<exists>m i d w'. serve e rq w = (Created m i d, w')) \<or>
            fst (serve e rq w) = Msg 500 False ''Upload failed''"
    using acc by blast
  have C: "part = None \<or>
          (\<exists>f. part = Some f \<and>
             (toLowerCase (extname (originalname f)) \<notin> ALLOWED_EXTS \<or>
              mimetype f \<notin> ALLOWED_MIME \<or> MAX_FILE_SIZE_BYTES < size_bytes f)) \<longrightarrow>
            (\<exists>r. validate_in_order part = Some r \<and> serve e rq w = (rejection_response r, w))"
  proof
    assume a: "part = None \<or>
          (\<exists>f. part = Some f \<and>
             (toLowerCase (extname (originalname f)) \<notin> ALLOWED_EXTS \<or>
              mimetype f \<notin> ALLOWED_MIME \<or> MAX_FILE_SIZE_BYTES < size_bytes f))"
    from viol [OF a] obtain r where r: "validate_in_order part = Some r" ..
    with rej [OF r] show "\<exists>r. validate_in_order part = Some r \<and> serve e rq w = (rejection_response r, w)"
      by blast
  qed
  show ?thesis by (rule conjI [OF A conjI [OF B C]])
qed

theorem upload_validation_order_witness:
  "serve env_ok \<lparr>authorization = Some ''Bearer ta'', route = PostUpload None\<rparr> local_world
     = (Msg 400 False ''No file uploaded'', local_world) \<and>
   serve env_ok \<lparr>authorization = Some ''Bearer ta'', route = PostUpload (Some renamed_exe)\<rparr>
       remote_world
     = (Msg 400 False ''Invalid file type. Only PDF, DOCX, and TXT allowed.'', remote_world) \<and>
   serve env_ok \<lparr>authorization = Some ''Bearer ta'', route = PostUpload (Some huge_pdf)\<rparr> local_world
     = (Msg 413 False ''File too large. Max 10 MB'', local_world) \<and>
   serve env_ok \<lparr>authorization = Some ''Bearer ta'', route = PostUpload (Some huge_exe)\<rparr> local_world
     = (Msg 400 False ''Invalid file type. Only PDF, DOCX, and TXT allowed.'', local_world)"
proof -
  have tok: "verifyToken (verifyIdToken env_ok)
      (authorization \<lparr>authorization = Some ''Bearer ta'', route = PostUpload p\<rparr>) = Inr alice" for p
    by (simp add: alice_token)
  have rt: "route \<lparr>authorization = Some ''Bearer ta'', route = PostUpload p\<rparr> = PostUpload p" for p
    by simp
  note order = upload_validation_order [OF tok rt, THEN conjunct1, rule_format, THEN conjunct1]
  have "serve env_ok \<lparr>authorization = Some ''Bearer ta'', route = PostUpload None\<rparr> local_world
     = (rejection_response NoFileProvided, local_world)"
    by (rule order [OF sample_validations(1)])
  moreover have "serve env_ok \<lparr>authorization = Some ''Bearer ta'', route = PostUpload (Some renamed_exe)\<rparr>
       remote_world = (rejection_response InvalidFileType, remote_world)"
    by (rule order [OF sample_validations(2)])
  moreover have "serve env_ok \<lparr>authorization = Some ''Bearer ta'', route = PostUpload (Some huge_pdf)\<rparr>
       local_world = (rejection_response FileTooLarge, local_world)"
    by (rule order [OF sample_validations(3)])
  moreover have "serve env_ok \<lparr>authorization = Some ''Bearer ta'', route = PostUpload (Some huge_exe)\<rparr>
       local_world = (rejection_response InvalidFileType, local_world)"
    by (rule order [OF sample_validations(4)])
  ultimately show ?thesis by simp
qed

section \<open>Delete\<close>

lemma remove_file_result:
  "remove_file e p w = Some w1 \<Longrightarrow>
     firestore w1 = firestore w \<and> coll w1 = coll w \<and> local_metadata w1 = local_metadata w \<and>
     (p \<noteq> [] \<longrightarrow> p \<notin> disk w1)"
  by (auto simp: remove_file_def split: if_splits)

lemma remove_file_succeeds:
  "unlink_ok e \<or> p = [] \<or> p \<notin> disk w \<Longrightarrow> \<exists>w1. remove_file e p w = Some w1"
  by (auto simp: remove_file_def)

lemma remove_file_fails:
  "\<not> unlink_ok e \<Longrightarrow> p \<noteq> [] \<Longrightarrow> p \<in> disk w \<Longrightarrow> remove_file e p w = None"
  by (simp add: remove_file_def)

lemma local_delete_owned:
  assumes loc: "\<not> firestore w"
    and found: "find (\<lambda>d. fst d = i) (readLocalMetadata w) = Some d"
    and own: "userId (snd d) = uid u"
  shows "delete_handler e u i w =
     (case remove_file e (filePath (snd d)) w of
        None \<Rightarrow> (Msg 500 False ''Failed to delete document'', w)
      | Some w1 \<Rightarrow> (Msg 200 True ''Document deleted locally'',
                    writeLocalMetadata e (filter (\<lambda>x. fst x \<noteq> i) (readLocalMetadata w)) w1))"
proof -
  from found obtain n where n: "findIndex (\<lambda>d. fst d = i) (readLocalMetadata w) = Some n"
      "readLocalMetadata w ! n = d"
    using find_findIndex by fastforce
  with loc own show ?thesis
    by (simp add: delete_handler_def Let_def split: option.splits)
qed

lemma remote_delete_owned:
  assumes fs: "firestore w"
    and get: "get_ok e"
    and found: "find (\<lambda>d. fst d = i) (coll w) = Some d"
    and own: "userId (snd d) = uid u"
  shows "delete_handler e u i w =
     (case remove_file e (filePath (snd d)) w of
        None \<Rightarrow> (Msg 500 False ''Failed to delete document'', w)
      | Some w1 \<Rightarrow>
          (case remote_delete e i w1 of
             None \<Rightarrow> (Msg 500 False ''Failed to delete document'', w1)
           | Some w2 \<Rightarrow> (Msg 200 True ''Document deleted'', w2)))"
  using assms by (simp add: delete_handler_def remote_get_def)

lemma sample_idp_token: "verifyToken sample_idp (Some ''Bearer ta'') = Inr alice"
  by (simp add: verifyToken_def bearer_token_def sample_idp_def)

lemma sample_envs_idp:
  "verifyIdToken env_unlink_fails = sample_idp"
  "verifyIdToken env_write_fails = sample_idp"
  "verifyIdToken env_store_down = sample_idp"
  "verifyIdToken env_later = sample_idp"
  by (simp_all add: env_unlink_fails_def env_write_fails_def env_store_down_def env_later_def
      env_ok_def)

lemma sample_env_flags:
  "get_ok env_store_down = False" "put_ok env_store_down = False"
  "write_ok env_write_fails = False"
  by (simp_all add: env_store_down_def env_write_fails_def env_ok_def)

lemma local_world_facts:
  "\<not> firestore local_world"
  "readLocalMetadata local_world = sample_docs"
  "stored_docs local_world = sample_docs"
  "disk local_world = sample_disk"
  by (simp_all add: local_world_def readLocalMetadata_def stored_docs_def)

lemma remote_world_facts:
  "firestore remote_world"
  "coll remote_world = sample_docs"
  "stored_docs remote_world = sample_docs"
  "disk remote_world = sample_disk"
  by (simp_all add: remote_world_def stored_docs_def)

lemma d1_facts:
  "userId (snd (sample_docs ! 0)) = uid alice"
  "filePath (snd (sample_docs ! 0)) = ''/app/uploads/f1.pdf''"
  "''/app/uploads/f1.pdf'' \<in> sample_disk"
  by (simp_all add: sample_docs_def sample_data_def alice_def sample_disk_def)

text \<open>
  Claim C6, amended. Let the caller own the record \<open>d\<close> stored under the id \<open>i\<close>, and let
  the store calls of the delete succeed (the Firestore read and delete return; the
  metadata file can be written). If removing the file does not fail (\<^verbatim>\<open>unlinkSync\<close>
  returns, or there is nothing to unlink because the path is empty or the file is
  already absent), the request is answered 200, no record with the id \<open>i\<close> is left and
  the file is gone: an absent file is a success. If \<^verbatim>\<open>unlinkSync\<close> throws on a file that
  exists, the failure is surfaced: the request is answered 500.
\<close>

theorem delete_removes_record_and_file:
  assumes auth: "verifyToken (verifyIdToken e) (authorization rq) = Inr u"
    and rt: "route rq = DeleteDocument i"
    and found: "find (\<lambda>d. fst d = i) (stored_docs w) = Some d"
    and own: "userId (snd d) = uid u"
    and store: "if firestore w then get_ok e \<and> put_ok e else write_ok e"
  shows "(unlink_ok e \<or> filePath (snd d) = [] \<or> filePath (snd d) \<notin> disk w \<longrightarrow>
            fst (serve e rq w) =
              Msg 200 True (if firestore w then ''Document deleted'' else ''Document deleted locally'') \<and>
            i \<notin> fst ` set (stored_docs (snd (serve e rq w))) \<and>
            (filePath (snd d) \<noteq> [] \<longrightarrow> filePath (snd d) \<notin> disk (snd (serve e rq w)))) \<and>
         (\<not> unlink_ok e \<and> filePath (snd d) \<noteq> [] \<and> filePath (snd d) \<in> disk w \<longrightarrow>
            fst (serve e rq w) = Msg 500 False ''Failed to delete document'')"
proof -
  have s: "serve e rq w = delete_handler e u i w"
    by (simp add: serve_authenticated [OF auth] rt)
  have A: "fst (serve e rq w) =
              Msg 200 True (if firestore w then ''Document deleted'' else ''Document deleted locally'') \<and>
            i \<notin> fst ` set (stored_docs (snd (serve e rq w))) \<and>
            (filePath (snd d) \<noteq> [] \<longrightarrow> filePath (snd d) \<notin> disk (snd (serve e rq w)))"
    if ok: "unlink_ok e \<or> filePath (snd d) = [] \<or> filePath (snd d) \<notin> disk w"
  proof -
  from ok obtain w1 where w1: "remove_file e (filePath (snd d)) w = Some w1"
    using remove_file_succeeds by blast
  note fr = remove_file_result [OF w1]
  show ?thesis
  proof (cases "firestore w")
    case True
    with found store have "find (\<lambda>d. fst d = i) (coll w) = Some d" "get_ok e" "put_ok e"
      by (simp_all add: stored_docs_def)
    with True own w1 fr show ?thesis
      by (auto simp: s remote_delete_owned remote_delete_def stored_docs_def)
  next
    case False
    with found store have "find (\<lambda>d. fst d = i) (readLocalMetadata w) = Some d" "write_ok e"
      by (simp_all add: stored_docs_def)
    with False own w1 fr show ?thesis
      by (auto simp: s local_delete_owned writeLocalMetadata_def stored_docs_def
          readLocalMetadata_def)
  qed
  qed
  have B: "fst (serve e rq w) = Msg 500 False ''Failed to delete document''"
    if bad: "\<not> unlink_ok e \<and> filePath (snd d) \<noteq> [] \<and> filePath (snd d) \<in> disk w"
  proof -
  from bad have none: "remove_file e (filePath (snd d)) w = None"
    by (simp add: remove_file_fails)
  show ?thesis
  proof (cases "firestore w")
    case True
    with found store have "find (\<lambda>d. fst d = i) (coll w) = Some d" "get_ok e"
      by (simp_all add: stored_docs_def)
    with True own none show ?thesis by (simp add: s remote_delete_owned)
  next
    case False
    with found have "find (\<lambda>d. fst d = i) (readLocalMetadata w) = Some d"
      by (simp add: stored_docs_def)
    with False own none show ?thesis by (simp add: s local_delete_owned)
  qed
  qed
  from A B show ?thesis by blast
qed

theorem delete_removes_record_and_file_witness:
  "fst (serve env_ok \<lparr>authorization = Some ''Bearer ta'', route = DeleteDocument ''d1''\<rparr> local_world)
     = Msg 200 True ''Document deleted locally'' \<and>
   ''d1'' \<notin> fst ` set (stored_docs
      (snd (serve env_ok \<lparr>authorization = Some ''Bearer ta'', route = DeleteDocument ''d1''\<rparr> local_world))) \<and>
   ''/app/uploads/f1.pdf'' \<notin> disk
      (snd (serve env_ok \<lparr>authorization = Some ''Bearer ta'', route = DeleteDocument ''d1''\<rparr> local_world)) \<and>
   fst (serve env_unlink_fails \<lparr>authorization = Some ''Bearer ta'', route = DeleteDocument ''d1''\<rparr>
          (remote_world\<lparr>disk := {}\<rparr>))
     = Msg 200 True ''Document deleted'' \<and>
   fst (serve env_unlink_fails \<lparr>authorization = Some ''Bearer ta'', route = DeleteDocument ''d1''\<rparr>
          remote_world)
     = Msg 500 False ''Failed to delete document''"
proof -
  let ?rq = "\<lparr>authorization = Some ''Bearer ta'', route = DeleteDocument ''d1''\<rparr>"
  have tok: "verifyToken (verifyIdToken env_ok) (authorization ?rq) = Inr alice"
    by (simp add: alice_token)
  have tok': "verifyToken (verifyIdToken env_unlink_fails) (authorization ?rq) = Inr alice"
    by (simp add: sample_idp_token sample_envs_idp)
  have rt: "route ?rq = DeleteDocument ''d1''" by simp
  have fl: "find (\<lambda>d. fst d = ''d1'') (stored_docs local_world) = Some (sample_docs ! 0)"
    by (simp add: local_world_facts find_d1)
  have fr: "find (\<lambda>d. fst d = ''d1'') (stored_docs remote_world) = Some (sample_docs ! 0)"
    by (simp add: remote_world_facts find_d1)
  have fe: "find (\<lambda>d. fst d = ''d1'') (stored_docs (remote_world\<lparr>disk := {}\<rparr>)) = Some (sample_docs ! 0)"
    by (simp add: remote_world_def stored_docs_def find_d1)
  have sl: "if firestore local_world then get_ok env_ok \<and> put_ok env_ok else write_ok env_ok"
    by (simp add: local_world_facts env_ok_def)
  have sr: "if firestore remote_world then get_ok env_unlink_fails \<and> put_ok env_unlink_fails
            else write_ok env_unlink_fails"
    by (simp add: env_unlink_fails_def env_ok_def)
  have se: "if firestore (remote_world\<lparr>disk := {}\<rparr>)
            then get_ok env_unlink_fails \<and> put_ok env_unlink_fails
            else write_ok env_unlink_fails"
    by (simp add: env_unlink_fails_def env_ok_def)
  have 1: "unlink_ok env_ok \<or> filePath (snd (sample_docs ! 0)) = [] \<or>
           filePath (snd (sample_docs ! 0)) \<notin> disk local_world"
    by (simp add: env_ok_def)
  have 2: "unlink_ok env_unlink_fails \<or> filePath (snd (sample_docs ! 0)) = [] \<or>
           filePath (snd (sample_docs ! 0)) \<notin> disk (remote_world\<lparr>disk := {}\<rparr>)"
    by simp
  have 3: "\<not> unlink_ok env_unlink_fails \<and> filePath (snd (sample_docs ! 0)) \<noteq> [] \<and>
           filePath (snd (sample_docs ! 0)) \<in> disk remote_world"
    by (simp add: env_unlink_fails_def remote_world_facts d1_facts)
  from delete_removes_record_and_file [OF tok rt fl d1_facts(1) sl, THEN conjunct1, rule_format, OF 1]
    delete_removes_record_and_file [OF tok' rt fe d1_facts(1) se, THEN conjunct1, rule_format, OF 2]
    delete_removes_record_and_file [OF tok' rt fr d1_facts(1) sr, THEN conjunct2, rule_format, OF 3]
  show ?thesis
    by (simp add: local_world_facts d1_facts remote_world_def)
qed

text \<open>
  The claim as stated fails where \<^verbatim>\<open>unlinkSync\<close> throws: the file is unlinked before the
  metadata is deleted and inside the same \<^verbatim>\<open>try\<close> block, so the failure does block the
  metadata deletion. The owner's record is still stored after the request.
\<close>

theorem unlink_failure_blocks_delete:
  "verifyToken (verifyIdToken env_unlink_fails) (Some ''Bearer ta'') = Inr alice \<and>
   find (\<lambda>d. fst d = ''d1'') (stored_docs local_world) = Some (sample_docs ! 0) \<and>
   userId (snd (sample_docs ! 0)) = uid alice \<and>
   write_ok env_unlink_fails \<and>
   serve env_unlink_fails \<lparr>authorization = Some ''Bearer ta'', route = DeleteDocument ''d1''\<rparr>
       local_world
     = (Msg 500 False ''Failed to delete document'', local_world)"
proof -
  have tok: "verifyToken (verifyIdToken env_unlink_fails) (Some ''Bearer ta'') = Inr alice"
    by (simp add: sample_idp_token sample_envs_idp)
  have f: "find (\<lambda>d. fst d = ''d1'') (readLocalMetadata local_world) = Some (sample_docs ! 0)"
    by (simp add: local_world_facts find_d1)
  have none: "remove_file env_unlink_fails (filePath (snd (sample_docs ! 0))) local_world = None"
    by (rule remove_file_fails) (simp_all add: env_unlink_fails_def local_world_facts d1_facts)
  have "serve env_unlink_fails \<lparr>authorization = Some ''Bearer ta'', route = DeleteDocument ''d1''\<rparr>
       local_world = (Msg 500 False ''Failed to delete document'', local_world)"
    by (simp add: serve_def tok
        local_delete_owned [OF local_world_facts(1) f d1_facts(1)] none)
  then show ?thesis
    using tok by (simp add: local_world_facts find_d1 d1_facts env_unlink_fails_def env_ok_def)
qed

section \<open>Local create\<close>

text \<open>
  Claim C7, against the code. A valid upload in the local backend whose write succeeds
  prepends one record to the stored list, under the id \<^verbatim>\<open>local-<Date.now()>-<random>\<close>. Its
  \<^verbatim>\<open>uploadedAt\<close> is the unresolved sentinel of \<^verbatim>\<open>FieldValue.serverTimestamp()\<close> whatever the
  clock says: the local branch stores no creation time, where the claim has one
  assigned at call time (and where Firestore, in the other branch, assigns one).
\<close>

theorem local_create_record:
  assumes auth: "verifyToken (verifyIdToken e) (authorization rq) = Inr u"
    and rt: "route rq = PostUpload (Some f)"
    and ext: "toLowerCase (extname (originalname f)) \<in> ALLOWED_EXTS"
    and mime: "mimetype f \<in> ALLOWED_MIME"
    and sz: "size_bytes f \<le> MAX_FILE_SIZE_BYTES"
    and loc: "\<not> firestore w"
    and wr: "write_ok e"
  shows "\<exists>d. readLocalMetadata (snd (serve e rq w)) =
              (''local-'' @ dec (now_id e) @ ''-'' @ dec (rnd_id e), d) # readLocalMetadata w \<and>
             uploadedAt d = ServerTimestamp"
proof -
  from ext mime have "fileFilter f" by (simp add: fileFilter_iff)
  with sz obtain rf p where
    up: "upload_single e (Some f) w = Inr (Some rf, w\<lparr>disk := insert p (disk w)\<rparr>)"
    using upload_single_accepts by blast
  have "serve e rq w = upload_handler e u (Some rf) (w\<lparr>disk := insert p (disk w)\<rparr>)"
    by (simp add: serve_authenticated [OF auth] rt up)
  with loc wr show ?thesis
    by (simp add: upload_handler_def Let_def writeLocalMetadata_def readLocalMetadata_def)
qed

lemma dec_samples: "dec 18 = ''18''" "dec 6 = ''6''" "dec 918 = ''918''"
  by code_simp+

theorem local_create_record_witness:
  "(\<exists>d. readLocalMetadata
          (snd (serve env_ok \<lparr>authorization = Some ''Bearer ta'', route = PostUpload (Some sample_pdf)\<rparr>
                  local_world))
        = (''local-18-6'', d) # sample_docs \<and> uploadedAt d = ServerTimestamp) \<and>
   (\<exists>d. readLocalMetadata
          (snd (serve env_later \<lparr>authorization = Some ''Bearer ta'', route = PostUpload (Some sample_pdf)\<rparr>
                  local_world))
        = (''local-918-6'', d) # sample_docs \<and> uploadedAt d = ServerTimestamp)"
proof -
  let ?rq = "\<lparr>authorization = Some ''Bearer ta'', route = PostUpload (Some sample_pdf)\<rparr>"
  have tok: "verifyToken (verifyIdToken env_ok) (authorization ?rq) = Inr alice"
    by (simp add: alice_token)
  have tok': "verifyToken (verifyIdToken env_later) (authorization ?rq) = Inr alice"
    by (simp add: sample_idp_token sample_envs_idp)
  have rt: "route ?rq = PostUpload (Some sample_pdf)" by simp
  have w: "write_ok env_ok" "write_ok env_later" by (simp_all add: env_later_def env_ok_def)
  have i: "now_id env_ok = 18" "rnd_id env_ok = 6" "now_id env_later = 918" "rnd_id env_later = 6"
    by (simp_all add: env_later_def env_ok_def)
  from local_create_record [OF tok rt sample_pdf_valid local_world_facts(1) w(1)]
    local_create_record [OF tok' rt sample_pdf_valid local_world_facts(1) w(2)]
  show ?thesis by (simp add: i dec_samples local_world_facts)
qed

lemma upload_single_world:
  "upload_single e part w = Inr (file, w1) \<Longrightarrow>
     firestore w1 = firestore w \<and> coll w1 = coll w \<and> local_metadata w1 = local_metadata w \<and>
     (file = None) = (part = None)"
  by (auto simp: upload_single_def Let_def split: option.splits if_splits)

lemma upload_single_rejects:
  "upload_single e part w = Inl err \<Longrightarrow> 400 \<le> status_code (error_handler err)"
  by (cases err) simp_all

lemma upload_single_validate:
  "(\<exists>x. upload_single e part w = Inr x) = (part = None \<or> validate_in_order part = None)"
  by (cases part) (auto simp: upload_single_def Let_def validate_in_order_iff)

section \<open>Facts about the local file\<close>

lemma read_after_write:
  "readLocalMetadata (writeLocalMetadata e arr w) = (if write_ok e then arr else readLocalMetadata w)"
  by (simp add: writeLocalMetadata_def readLocalMetadata_def)

lemma read_frame:
  "local_metadata w1 = local_metadata w \<Longrightarrow> readLocalMetadata w1 = readLocalMetadata w"
  by (simp add: readLocalMetadata_def)

lemma local_create_step:
  assumes auth: "verifyToken (verifyIdToken e) (authorization rq) = Inr u"
    and rt: "route rq = PostUpload (Some f)"
    and ok: "fileFilter f" "size_bytes f \<le> MAX_FILE_SIZE_BYTES"
    and loc: "\<not> firestore w"
  shows "\<exists>d p. serve e rq w =
           (Created ''File uploaded & metadata saved locally'' (local_id e) d,
            writeLocalMetadata e ((local_id e, d) # readLocalMetadata w)
              (w\<lparr>disk := insert p (disk w)\<rparr>)) \<and>
           uploadedAt d = ServerTimestamp \<and> userId d = uid u"
proof -
  from ok obtain rf p where
    up: "upload_single e (Some f) w = Inr (Some rf, w\<lparr>disk := insert p (disk w)\<rparr>)"
    using upload_single_accepts by blast
  let ?w1 = "w\<lparr>disk := insert p (disk w)\<rparr>"
  let ?d = "\<lparr>userId = uid u, userEmail = email u, fileName = filename rf,
             originalName = originalname rf, fileType = mimetype rf,
             fileSize = size_bytes rf, filePath = path rf,
             status = JStr ''uploaded'', uploadedAt = ServerTimestamp\<rparr>"
  have r: "readLocalMetadata ?w1 = readLocalMetadata w"
    by (simp add: readLocalMetadata_def)
  have "serve e rq w = upload_handler e u (Some rf) ?w1"
    by (simp add: serve_authenticated [OF auth] rt up)
  with loc have "serve e rq w =
      (Created ''File uploaded & metadata saved locally'' (local_id e) ?d,
       writeLocalMetadata e ((local_id e, ?d) # readLocalMetadata w) ?w1)"
    by (simp add: upload_handler_def Let_def r local_id_def)
  moreover have "uploadedAt ?d = ServerTimestamp \<and> userId ?d = uid u" by simp
  ultimately show ?thesis by blast
qed

lemma sample_pdf_passes: "fileFilter sample_pdf" "size_bytes sample_pdf \<le> MAX_FILE_SIZE_BYTES"
  using sample_pdf_valid by (simp_all add: fileFilter_iff)

lemma sample_idp_token_bob: "verifyToken sample_idp (Some ''Bearer tb'') = Inr bob"
  by (simp add: verifyToken_def bearer_token_def sample_idp_def)

lemma more_envs_idp: "verifyIdToken env_ok = sample_idp" "verifyIdToken env_twin = sample_idp"
  by (simp_all add: env_twin_def env_ok_def)

lemma upload_tokens:
  "verifyToken (verifyIdToken env_ok) (authorization alice_upload) = Inr alice"
  "verifyToken (verifyIdToken env_twin) (authorization alice_upload) = Inr alice"
  "verifyToken (verifyIdToken env_store_down) (authorization alice_upload) = Inr alice"
  "verifyToken (verifyIdToken env_write_fails) (authorization alice_upload) = Inr alice"
  "verifyToken (verifyIdToken env_ok) (authorization bob_upload) = Inr bob"
  "route alice_upload = PostUpload (Some sample_pdf)"
  "route bob_upload = PostUpload (Some sample_pdf)"
  by (simp_all add: alice_upload_def bob_upload_def sample_idp_token sample_idp_token_bob
      sample_envs_idp more_envs_idp)

lemma first_upload:
  "\<exists>d. readLocalMetadata (snd (serve env_ok alice_upload fresh_local)) = [(local_id env_ok, d)] \<and>
       userId d = uid alice \<and> \<not> firestore (snd (serve env_ok alice_upload fresh_local))"
proof -
  have loc: "\<not> firestore fresh_local" by (simp add: fresh_local_def)
  from local_create_step [OF upload_tokens(1) upload_tokens(6) sample_pdf_passes loc]
  obtain d p where
    "serve env_ok alice_upload fresh_local =
       (Created ''File uploaded & metadata saved locally'' (local_id env_ok) d,
        writeLocalMetadata env_ok ((local_id env_ok, d) # readLocalMetadata fresh_local)
          (fresh_local\<lparr>disk := insert p (disk fresh_local)\<rparr>))"
    "userId d = uid alice"
    by blast
  then show ?thesis
    by (simp add: writeLocalMetadata_def env_ok_def readLocalMetadata_def fresh_local_def)
qed

section \<open>Upload when the store call fails\<close>

text \<open>
  Claim C3 as stated fails where the store call throws: an upload that passes every
  validation rule, sent while the Firestore insert throws, is answered 500 by the
  handler's \<^verbatim>\<open>catch\<close>, and no record is created.
\<close>

theorem failed_add_creates_nothing:
  "verifyToken (verifyIdToken env_store_down) (authorization alice_upload) = Inr alice \<and>
   route alice_upload = PostUpload (Some sample_pdf) \<and>
   validate_in_order (Some sample_pdf) = None \<and>
   fst (serve env_store_down alice_upload remote_world) = Msg 500 False ''Upload failed'' \<and>
   coll (snd (serve env_store_down alice_upload remote_world)) = coll remote_world"
proof -
  from sample_pdf_passes obtain rf p where
    up: "upload_single env_store_down (Some sample_pdf) remote_world =
           Inr (Some rf, remote_world\<lparr>disk := insert p (disk remote_world)\<rparr>)"
    using upload_single_accepts by blast
  have "serve env_store_down alice_upload remote_world =
      upload_handler env_store_down alice (Some rf)
        (remote_world\<lparr>disk := insert p (disk remote_world)\<rparr>)"
    by (simp add: serve_authenticated [OF upload_tokens(3)] upload_tokens up)
  then have "serve env_store_down alice_upload remote_world =
      (Msg 500 False ''Upload failed'', remote_world\<lparr>disk := insert p (disk remote_world)\<rparr>)"
    by (simp add: upload_handler_def Let_def remote_add_def remote_world_facts sample_env_flags)
  moreover have "validate_in_order (Some sample_pdf) = None"
    using sample_pdf_passes by (simp add: validate_in_order_iff)
  ultimately show ?thesis by (simp add: upload_tokens)
qed

section \<open>Delete in the local store\<close>

lemma local_delete_cases:
  assumes loc: "\<not> firestore w"
  shows "delete_handler e u i w = (Msg 404 False ''Document not found'', w) \<or>
         delete_handler e u i w = (Msg 403 False ''Access denied'', w) \<or>
         delete_handler e u i w = (Msg 500 False ''Failed to delete document'', w) \<or>
         (\<exists>w1. local_metadata w1 = local_metadata w \<and>
            delete_handler e u i w =
              (Msg 200 True ''Document deleted locally'',
               writeLocalMetadata e (filter (\<lambda>x. fst x \<noteq> i) (readLocalMetadata w)) w1))"
proof (cases "findIndex (\<lambda>d. fst d = i) (readLocalMetadata w)")
  case None
  with loc show ?thesis by (simp add: delete_handler_def Let_def)
next
  case (Some n)
  show ?thesis
  proof (cases "remove_file e (filePath (snd (readLocalMetadata w ! n))) w")
    case None
    with loc Some show ?thesis by (simp add: delete_handler_def Let_def)
  next
    case (Some w1)
    from remove_file_result [OF Some] have "local_metadata w1 = local_metadata w" by simp
    with loc \<open>findIndex (\<lambda>d. fst d = i) (readLocalMetadata w) = Some n\<close> Some
    show ?thesis by (auto simp: delete_handler_def Let_def)
  qed
qed

lemma find_d2: "find (\<lambda>d. fst d = ''d2'') sample_docs = Some (sample_docs ! 1)"
  by (simp add: sample_docs_def)

lemma d2_facts:
  "userId (snd (sample_docs ! 1)) = uid alice"
  "filePath (snd (sample_docs ! 1)) = ''/app/uploads/f2.pdf''"
  "''/app/uploads/f2.pdf'' \<in> sample_disk"
  by (simp_all add: sample_docs_def sample_data_def alice_def sample_disk_def)

text \<open>
  Claim C10, amended. Every delete request in the local backend, whatever its answer,
  keeps every record whose id is not the requested one, unchanged and in order. When
  the caller owns the record found under the id, the file removal does not fail and
  the metadata file can be written, the request is answered 200 and the stored list is
  the old list without the records of that id: exactly these are removed.
\<close>

theorem local_delete_frame:
  assumes auth: "verifyToken (verifyIdToken e) (authorization rq) = Inr u"
    and rt: "route rq = DeleteDocument i"
    and loc: "\<not> firestore w"
  shows "filter (\<lambda>x. fst x \<noteq> i) (readLocalMetadata (snd (serve e rq w))) =
           filter (\<lambda>x. fst x \<noteq> i) (readLocalMetadata w) \<and>
         (\<forall>d. find (\<lambda>x. fst x = i) (readLocalMetadata w) = Some d \<and> userId (snd d) = uid u \<and>
              (unlink_ok e \<or> filePath (snd d) = [] \<or> filePath (snd d) \<notin> disk w) \<and> write_ok e
            \<longrightarrow> fst (serve e rq w) = Msg 200 True ''Document deleted locally'' \<and>
                readLocalMetadata (snd (serve e rq w)) =
                  filter (\<lambda>x. fst x \<noteq> i) (readLocalMetadata w) \<and>
                (\<forall>x \<in> set (readLocalMetadata w).
                   (x \<in> set (readLocalMetadata (snd (serve e rq w)))) = (fst x \<noteq> i)))"
proof -
  have s: "serve e rq w = delete_handler e u i w"
    by (simp add: serve_authenticated [OF auth] rt)
  have frame: "filter (\<lambda>x. fst x \<noteq> i) (readLocalMetadata (snd (serve e rq w))) =
           filter (\<lambda>x. fst x \<noteq> i) (readLocalMetadata w)"
  proof -
    consider (same) "snd (delete_handler e u i w) = w"
      | (wrote) w1 where "local_metadata w1 = local_metadata w"
          "snd (delete_handler e u i w) =
             writeLocalMetadata e (filter (\<lambda>x. fst x \<noteq> i) (readLocalMetadata w)) w1"
      using local_delete_cases [OF loc, of e u i] by auto
    then show ?thesis
    proof cases
      case same
      then show ?thesis by (simp add: s)
    next
      case wrote
      have "readLocalMetadata w1 = readLocalMetadata w"
        using wrote(1) by (simp add: readLocalMetadata_def)
      then show ?thesis by (simp add: s wrote(2) read_after_write)
    qed
  qed
  have removed: "fst (serve e rq w) = Msg 200 True ''Document deleted locally'' \<and>
                readLocalMetadata (snd (serve e rq w)) =
                  filter (\<lambda>x. fst x \<noteq> i) (readLocalMetadata w) \<and>
                (\<forall>x \<in> set (readLocalMetadata w).
                   (x \<in> set (readLocalMetadata (snd (serve e rq w)))) = (fst x \<noteq> i))"
    if h: "find (\<lambda>x. fst x = i) (readLocalMetadata w) = Some d \<and> userId (snd d) = uid u \<and>
              (unlink_ok e \<or> filePath (snd d) = [] \<or> filePath (snd d) \<notin> disk w) \<and> write_ok e"
    for d
  proof -
    from h obtain w1 where w1: "remove_file e (filePath (snd d)) w = Some w1"
      using remove_file_succeeds by blast
    from h have found: "find (\<lambda>x. fst x = i) (readLocalMetadata w) = Some d"
      and own: "userId (snd d) = uid u" and wr: "write_ok e" by simp_all
    have r: "serve e rq w =
        (Msg 200 True ''Document deleted locally'',
         writeLocalMetadata e (filter (\<lambda>x. fst x \<noteq> i) (readLocalMetadata w)) w1)"
      by (simp add: s local_delete_owned [OF loc found own] w1)
    have "readLocalMetadata (snd (serve e rq w)) = filter (\<lambda>x. fst x \<noteq> i) (readLocalMetadata w)"
      using wr by (simp add: r read_after_write)
    then show ?thesis by (simp add: r)
  qed
  from frame removed show ?thesis by blast
qed

theorem local_delete_frame_witness:
  "fst (serve env_ok \<lparr>authorization = Some ''Bearer ta'', route = DeleteDocument ''d1''\<rparr> local_world)
     = Msg 200 True ''Document deleted locally'' \<and>
   readLocalMetadata
     (snd (serve env_ok \<lparr>authorization = Some ''Bearer ta'', route = DeleteDocument ''d1''\<rparr> local_world))
     = [sample_docs ! 1, sample_docs ! 2] \<and>
   filter (\<lambda>x. fst x \<noteq> ''d1'') (readLocalMetadata
     (snd (serve env_unlink_fails \<lparr>authorization = Some ''Bearer ta'', route = DeleteDocument ''d1''\<rparr>
            local_world)))
     = [sample_docs ! 1, sample_docs ! 2]"
proof -
  let ?rq = "\<lparr>authorization = Some ''Bearer ta'', route = DeleteDocument ''d1''\<rparr>"
  have tok: "verifyToken (verifyIdToken env_ok) (authorization ?rq) = Inr alice"
    by (simp add: alice_token)
  have tok': "verifyToken (verifyIdToken env_unlink_fails) (authorization ?rq) = Inr alice"
    by (simp add: sample_idp_token sample_envs_idp)
  have rt: "route ?rq = DeleteDocument ''d1''" by simp
  have h: "find (\<lambda>x. fst x = ''d1'') (readLocalMetadata local_world) = Some (sample_docs ! 0) \<and>
      userId (snd (sample_docs ! 0)) = uid alice \<and>
      (unlink_ok env_ok \<or> filePath (snd (sample_docs ! 0)) = [] \<or>
       filePath (snd (sample_docs ! 0)) \<notin> disk local_world) \<and> write_ok env_ok"
    by (simp add: local_world_facts find_d1 d1_facts env_ok_def)
  have k: "filter (\<lambda>x. fst x \<noteq> ''d1'') sample_docs = [sample_docs ! 1, sample_docs ! 2]"
    by (simp add: sample_docs_def)
  from local_delete_frame [OF tok rt local_world_facts(1), THEN conjunct2, rule_format, OF h]
    local_delete_frame [OF tok' rt local_world_facts(1), THEN conjunct1]
  show ?thesis by (simp add: local_world_facts k)
qed

text \<open>
  The claim as stated fails for deletes that remove nothing: when \<^verbatim>\<open>unlinkSync\<close> throws,
  the owner's delete is answered 500 and the record stays; when the write of the
  metadata file throws, the owner's delete is answered 200 and the record stays as
  well.
\<close>

theorem local_delete_leaves_record:
  "find (\<lambda>d. fst d = ''d2'') (readLocalMetadata local_world) = Some (sample_docs ! 1) \<and>
   userId (snd (sample_docs ! 1)) = uid alice \<and>
   serve env_unlink_fails \<lparr>authorization = Some ''Bearer ta'', route = DeleteDocument ''d2''\<rparr>
       local_world
     = (Msg 500 False ''Failed to delete document'', local_world) \<and>
   find (\<lambda>d. fst d = ''d1'') (readLocalMetadata local_world) = Some (sample_docs ! 0) \<and>
   userId (snd (sample_docs ! 0)) = uid alice \<and>
   fst (serve env_write_fails \<lparr>authorization = Some ''Bearer ta'', route = DeleteDocument ''d1''\<rparr>
       local_world)
     = Msg 200 True ''Document deleted locally'' \<and>
   readLocalMetadata
     (snd (serve env_write_fails \<lparr>authorization = Some ''Bearer ta'', route = DeleteDocument ''d1''\<rparr>
            local_world))
     = readLocalMetadata local_world"
proof -
  have tok: "verifyToken (verifyIdToken env_unlink_fails) (Some ''Bearer ta'') = Inr alice"
    "verifyToken (verifyIdToken env_write_fails) (Some ''Bearer ta'') = Inr alice"
    by (simp_all add: sample_idp_token sample_envs_idp)
  have f2: "find (\<lambda>d. fst d = ''d2'') (readLocalMetadata local_world) = Some (sample_docs ! 1)"
    by (simp add: local_world_facts find_d2)
  have f1: "find (\<lambda>d. fst d = ''d1'') (readLocalMetadata local_world) = Some (sample_docs ! 0)"
    by (simp add: local_world_facts find_d1)
  have none: "remove_file env_unlink_fails (filePath (snd (sample_docs ! 1))) local_world = None"
    using d2_facts
    by (intro remove_file_fails) (simp_all add: env_unlink_fails_def local_world_facts)
  have some: "remove_file env_write_fails (filePath (snd (sample_docs ! 0))) local_world =
      Some (local_world\<lparr>disk := disk local_world - {filePath (snd (sample_docs ! 0))}\<rparr>)"
    by (simp add: remove_file_def env_write_fails_def env_ok_def local_world_facts d1_facts)
  have A: "serve env_unlink_fails \<lparr>authorization = Some ''Bearer ta'', route = DeleteDocument ''d2''\<rparr>
       local_world = (Msg 500 False ''Failed to delete document'', local_world)"
    using none local_delete_owned [OF local_world_facts(1) f2 d2_facts(1), of env_unlink_fails]
    by (simp add: serve_def tok)
  have B: "serve env_write_fails \<lparr>authorization = Some ''Bearer ta'', route = DeleteDocument ''d1''\<rparr>
       local_world =
      (Msg 200 True ''Document deleted locally'',
       writeLocalMetadata env_write_fails
         (filter (\<lambda>x. fst x \<noteq> ''d1'') (readLocalMetadata local_world))
         (local_world\<lparr>disk := disk local_world - {filePath (snd (sample_docs ! 0))}\<rparr>))"
    by (simp add: serve_def tok local_delete_owned [OF local_world_facts(1) f1 d1_facts(1)] some)
  have C: "readLocalMetadata (local_world\<lparr>disk := disk local_world - {filePath (snd (sample_docs ! 0))}\<rparr>)
      = readLocalMetadata local_world"
    by (simp add: readLocalMetadata_def)
  from f1 f2 d1_facts(1) d2_facts(1) A show ?thesis
    by (simp add: B read_after_write sample_env_flags C)
qed

section \<open>Store failures\<close>

text \<open>
  In the Firestore backend every call that throws ends in the handler's \<^verbatim>\<open>catch\<close>: the
  answer is 500 with the route's fixed message, for a read that throws and for a write
  that throws after a read that returned, and the collection is what it was.
\<close>

lemma remote_read_failure:
  assumes auth: "verifyToken (verifyIdToken e) (authorization rq) = Inr u"
    and fs: "firestore w"
    and ng: "\<not> get_ok e"
  shows "route rq = GetDocuments \<Longrightarrow>
           serve e rq w = (Msg 500 False ''Failed to list documents'', w)"
    and "route rq = GetDocument i \<Longrightarrow>
           serve e rq w = (Msg 500 False ''Failed to fetch document'', w)"
    and "route rq = PatchStatus i s \<Longrightarrow> truthy s \<Longrightarrow>
           serve e rq w = (Msg 500 False ''Failed to update status'', w)"
    and "route rq = DeleteDocument i \<Longrightarrow>
           serve e rq w = (Msg 500 False ''Failed to delete document'', w)"
  using fs ng
  by (simp_all add: serve_authenticated [OF auth] list_handler_def get_handler_def
      patch_handler_def delete_handler_def remote_query_def remote_get_def)

lemma remote_write_failure:
  assumes auth: "verifyToken (verifyIdToken e) (authorization rq) = Inr u"
    and fs: "firestore w"
    and np: "\<not> put_ok e"
  shows "route rq = PostUpload part \<Longrightarrow> validate_in_order part = None \<Longrightarrow>
           fst (serve e rq w) = Msg 500 False ''Upload failed'' \<and>
           coll (snd (serve e rq w)) = coll w"
    and "route rq = PatchStatus i s \<Longrightarrow> truthy s \<Longrightarrow> get_ok e \<Longrightarrow>
         find (\<lambda>x. fst x = i) (coll w) = Some d \<Longrightarrow> userId (snd d) = uid u \<Longrightarrow>
           serve e rq w = (Msg 500 False ''Failed to update status'', w)"
    and "route rq = DeleteDocument i \<Longrightarrow> get_ok e \<Longrightarrow>
         find (\<lambda>x. fst x = i) (coll w) = Some d \<Longrightarrow> userId (snd d) = uid u \<Longrightarrow>
           fst (serve e rq w) = Msg 500 False ''Failed to delete document'' \<and>
           coll (snd (serve e rq w)) = coll w"
proof -
  show "fst (serve e rq w) = Msg 500 False ''Upload failed'' \<and> coll (snd (serve e rq w)) = coll w"
    if rt: "route rq = PostUpload part" and v: "validate_in_order part = None"
  proof -
    from v obtain f where p: "part = Some f"
      by (cases part) (simp_all add: validate_in_order_def)
    with v have "fileFilter f" "size_bytes f \<le> MAX_FILE_SIZE_BYTES"
      by (simp_all add: validate_in_order_iff split: if_splits)
    then obtain rf pth where
      up: "upload_single e (Some f) w = Inr (Some rf, w\<lparr>disk := insert pth (disk w)\<rparr>)"
      using upload_single_accepts by blast
    from fs np show ?thesis
      by (simp add: serve_authenticated [OF auth] rt p up upload_handler_def Let_def
          remote_add_def)
  qed
  show "serve e rq w = (Msg 500 False ''Failed to update status'', w)"
    if "route rq = PatchStatus i s" "truthy s" "get_ok e"
      "find (\<lambda>x. fst x = i) (coll w) = Some d" "userId (snd d) = uid u"
    using that fs np
    by (simp add: serve_authenticated [OF auth] patch_handler_def remote_get_def
        remote_update_def)
  show "fst (serve e rq w) = Msg 500 False ''Failed to delete document'' \<and>
        coll (snd (serve e rq w)) = coll w"
    if "route rq = DeleteDocument i" "get_ok e"
      "find (\<lambda>x. fst x = i) (coll w) = Some d" "userId (snd d) = uid u"
    using that fs np remote_delete_owned [OF fs that(2) that(3) that(4)]
    by (auto simp: serve_authenticated [OF auth] remote_delete_def split: option.splits
        dest: remove_file_result)
qed

text \<open>
  Claim C8, against the code. In the local backend a write of the metadata file that
  throws does not reach the handler: \<^verbatim>\<open>writeLocalMetadata\<close> catches the error itself. The
  answer of every request is the answer it gets when the write succeeds (201 for an
  upload, 200 for a status update or a delete), while the metadata file is what it
  was. The claim has such a failure answered 500 and never with success, which is what
  the Firestore branch of the same handlers does.
\<close>

theorem local_write_failure_swallowed:
  assumes auth: "verifyToken (verifyIdToken e) (authorization rq) = Inr u"
    and loc: "\<not> firestore w"
    and nw: "\<not> write_ok e"
  shows "fst (serve e rq w) = fst (serve (e\<lparr>write_ok := True\<rparr>) rq w) \<and>
         local_metadata (snd (serve e rq w)) = local_metadata w"
proof -
  have auth': "verifyToken (verifyIdToken (e\<lparr>write_ok := True\<rparr>)) (authorization rq) = Inr u"
    using auth by simp
  have up: "upload_single (e\<lparr>write_ok := True\<rparr>) part w = upload_single e part w" for part
    by (cases part) (simp_all add: upload_single_def)
  have rm: "remove_file (e\<lparr>write_ok := True\<rparr>) p w = remove_file e p w" for p
    by (simp add: remove_file_def)
  have wr: "local_metadata (writeLocalMetadata e arr w1) = local_metadata w1" for arr w1
    using nw by (simp add: writeLocalMetadata_def)
  show ?thesis
  proof (cases "route rq")
    case (PostUpload part)
    show ?thesis
    proof (cases "upload_single e part w")
      case (Inl err)
      then show ?thesis
        by (simp add: serve_authenticated [OF auth] serve_authenticated [OF auth'] PostUpload up)
    next
      case (Inr x)
      obtain rf w1 where x: "x = (rf, w1)" by (cases x)
      from upload_single_world [OF Inr [unfolded x]] loc
      have "\<not> firestore w1" "local_metadata w1 = local_metadata w" by simp_all
      then show ?thesis
        by (simp add: serve_authenticated [OF auth] serve_authenticated [OF auth'] PostUpload up
            Inr x upload_handler_def Let_def wr split: option.splits)
    qed
  next
    case GetDocuments
    with loc show ?thesis
      by (simp add: serve_authenticated [OF auth] serve_authenticated [OF auth'] list_handler_def)
  next
    case (GetDocument i)
    with loc show ?thesis
      by (simp add: serve_authenticated [OF auth] serve_authenticated [OF auth'] get_handler_def
          split: option.splits)
  next
    case (PatchStatus i s)
    with loc show ?thesis
      by (simp add: serve_authenticated [OF auth] serve_authenticated [OF auth'] patch_handler_def
          Let_def wr split: option.splits)
  next
    case (DeleteDocument i)
    with loc show ?thesis
      by (auto simp: serve_authenticated [OF auth] serve_authenticated [OF auth'] delete_handler_def
          Let_def rm wr split: option.splits dest: remove_file_result)
  next
    case GetProfile
    then show ?thesis
      by (simp add: serve_authenticated [OF auth] serve_authenticated [OF auth'])
  qed
qed

theorem local_write_failure_swallowed_witness:
  "status_code (fst (serve env_write_fails alice_upload local_world)) = 201 \<and>
   local_metadata (snd (serve env_write_fails alice_upload local_world)) = Stored sample_docs \<and>
   fst (serve env_write_fails \<lparr>authorization = Some ''Bearer ta'', route = DeleteDocument ''d1''\<rparr>
          local_world)
     = Msg 200 True ''Document deleted locally'' \<and>
   local_metadata
     (snd (serve env_write_fails \<lparr>authorization = Some ''Bearer ta'', route = DeleteDocument ''d1''\<rparr>
             local_world))
     = Stored sample_docs"
proof -
  let ?e = "env_write_fails\<lparr>write_ok := True\<rparr>"
  let ?del = "\<lparr>authorization = Some ''Bearer ta'', route = DeleteDocument ''d1''\<rparr>"
  have nw: "\<not> write_ok env_write_fails" by (simp add: sample_env_flags)
  have tok: "verifyToken (verifyIdToken ?e) (authorization alice_upload) = Inr alice"
    using upload_tokens(4) by simp
  have tokd: "verifyToken (verifyIdToken env_write_fails) (authorization ?del) = Inr alice"
    "verifyToken (verifyIdToken ?e) (authorization ?del) = Inr alice"
    by (simp_all add: sample_idp_token sample_envs_idp)
  from local_create_step [OF tok upload_tokens(6) sample_pdf_passes local_world_facts(1)]
  have c: "status_code (fst (serve ?e alice_upload local_world)) = 201" by auto
  have f1: "find (\<lambda>d. fst d = ''d1'') (readLocalMetadata local_world) = Some (sample_docs ! 0)"
    by (simp add: local_world_facts find_d1)
  have some: "\<exists>w1. remove_file ?e (filePath (snd (sample_docs ! 0))) local_world = Some w1"
    by (rule remove_file_succeeds) (simp add: env_write_fails_def env_ok_def)
  have d: "fst (serve ?e ?del local_world) = Msg 200 True ''Document deleted locally''"
    using some local_delete_owned [OF local_world_facts(1) f1 d1_facts(1), of ?e]
    by (auto simp: serve_authenticated [OF tokd(2)])
  have m: "local_metadata local_world = Stored sample_docs" by (simp add: local_world_def)
  from local_write_failure_swallowed [OF upload_tokens(4) local_world_facts(1) nw]
    local_write_failure_swallowed [OF tokd(1) local_world_facts(1) nw]
  show ?thesis by (simp add: c d m)
qed

section \<open>Listing\<close>

lemma sentinel_only_update:
  "sentinel_only ds \<Longrightarrow> uploadedAt (snd y) = ServerTimestamp \<Longrightarrow> sentinel_only (ds[n := y])"
  unfolding sentinel_only_def list_all_iff
  using set_update_subset_insert [of ds n y] by auto

lemma sentinel_only_filter: "sentinel_only ds \<Longrightarrow> sentinel_only (filter P ds)"
  by (simp add: sentinel_only_def list_all_iff)

lemma sentinel_only_nth: "sentinel_only ds \<Longrightarrow> n < length ds \<Longrightarrow> uploadedAt (snd (ds ! n)) = ServerTimestamp"
  by (simp add: sentinel_only_def list_all_length)

lemma sentinel_only_newest_first: "sentinel_only ds \<Longrightarrow> newest_first ds"
  by (induction ds) (auto simp: sentinel_only_def newest_first_def list_all_iff)

lemma remote_upload_keeps_file:
  "firestore w \<Longrightarrow> local_metadata (snd (upload_handler e u rf w)) = local_metadata w"
  by (cases rf) (simp_all add: upload_handler_def Let_def remote_add_def)

lemma remote_patch_keeps_file:
  "firestore w \<Longrightarrow> local_metadata (snd (patch_handler e u i v w)) = local_metadata w"
  by (simp add: patch_handler_def remote_get_def remote_update_def split: option.splits)

lemma remote_delete_keeps_file:
  "firestore w \<Longrightarrow> local_metadata (snd (delete_handler e u i w)) = local_metadata w"
  by (auto simp: delete_handler_def remote_get_def remote_delete_def
      split: option.splits dest: remove_file_result)

lemma upload_handler_keeps_sentinels:
  assumes "sentinel_only (readLocalMetadata w)"
  shows "sentinel_only (readLocalMetadata (snd (upload_handler e u rf w)))"
proof (cases rf)
  case None
  with assms show ?thesis by (simp add: upload_handler_def)
next
  case (Some f)
  show ?thesis
  proof (cases "firestore w")
    case True
    with assms show ?thesis
      by (simp add: read_frame [OF remote_upload_keeps_file])
  next
    case False
    with Some assms show ?thesis
      by (simp add: upload_handler_def Let_def read_after_write sentinel_only_def)
  qed
qed

lemma patch_handler_keeps_sentinels:
  assumes s: "sentinel_only (readLocalMetadata w)"
  shows "sentinel_only (readLocalMetadata (snd (patch_handler e u i v w)))"
proof (cases "firestore w")
  case True
  with s show ?thesis
    by (simp add: read_frame [OF remote_patch_keeps_file])
next
  case False
  show ?thesis
  proof (cases "findIndex (\<lambda>d. fst d = i) (readLocalMetadata w)")
    case None
    with False s show ?thesis by (simp add: patch_handler_def Let_def)
  next
    case (Some n)
    then have n: "n < length (readLocalMetadata w)" by (simp add: findIndex_Some)
    have "sentinel_only ((readLocalMetadata w)[n := (fst (readLocalMetadata w ! n),
            (snd (readLocalMetadata w ! n))\<lparr>status := v\<rparr>)])"
      using s n by (simp add: sentinel_only_update sentinel_only_nth)
    with False Some s show ?thesis
      by (simp add: patch_handler_def Let_def read_after_write)
  qed
qed

lemma delete_handler_keeps_sentinels:
  assumes s: "sentinel_only (readLocalMetadata w)"
  shows "sentinel_only (readLocalMetadata (snd (delete_handler e u i w)))"
proof (cases "firestore w")
  case True
  with s show ?thesis
    by (simp add: read_frame [OF remote_delete_keeps_file])
next
  case False
  show ?thesis
  proof (cases "findIndex (\<lambda>d. fst d = i) (readLocalMetadata w)")
    case None
    with False s show ?thesis by (simp add: delete_handler_def Let_def)
  next
    case (Some n)
    show ?thesis
    proof (cases "remove_file e (filePath (snd (readLocalMetadata w ! n))) w")
      case None
      with False Some s show ?thesis by (simp add: delete_handler_def Let_def)
    next
      case (Some w1)
      from remove_file_result [OF Some] have "readLocalMetadata w1 = readLocalMetadata w"
        by (simp add: readLocalMetadata_def)
      with False \<open>findIndex (\<lambda>d. fst d = i) (readLocalMetadata w) = Some n\<close> Some s
      show ?thesis
        by (simp add: delete_handler_def Let_def read_after_write sentinel_only_filter)
    qed
  qed
qed

lemma serve_keeps_sentinels:
  assumes s: "sentinel_only (readLocalMetadata w)"
  shows "sentinel_only (readLocalMetadata (snd (serve e rq w)))"
proof (cases "verifyToken (verifyIdToken e) (authorization rq)")
  case (Inl r)
  with s show ?thesis by (simp add: serve_def)
next
  case (Inr u)
  show ?thesis
  proof (cases "route rq")
    case (PostUpload part)
    show ?thesis
    proof (cases "upload_single e part w")
      case (Inl err)
      with PostUpload s show ?thesis by (simp add: serve_authenticated [OF Inr])
    next
      case (Inr x)
      obtain rf w1 where x: "x = (rf, w1)" by (cases x)
      from upload_single_world [OF Inr [unfolded x]]
      have "readLocalMetadata w1 = readLocalMetadata w" by (simp add: readLocalMetadata_def)
      with s have "sentinel_only (readLocalMetadata w1)" by simp
      then show ?thesis
        using PostUpload Inr x
        by (simp add: serve_authenticated [OF \<open>verifyToken (verifyIdToken e) (authorization rq) = Inr u\<close>]
            upload_handler_keeps_sentinels)
    qed
  next
    case GetDocuments
    with s show ?thesis
      by (simp add: serve_authenticated [OF Inr] list_handler_def Let_def split: option.splits)
  next
    case (GetDocument i)
    with s show ?thesis
      by (simp add: serve_authenticated [OF Inr] get_handler_def split: option.splits)
  next
    case (PatchStatus i v)
    with s show ?thesis
      by (simp add: serve_authenticated [OF Inr] patch_handler_keeps_sentinels)
  next
    case (DeleteDocument i)
    with s show ?thesis
      by (simp add: serve_authenticated [OF Inr] delete_handler_keeps_sentinels)
  next
    case GetProfile
    with s show ?thesis by (simp add: serve_authenticated [OF Inr])
  qed
qed

lemma reachable_sentinels: "reachable w \<Longrightarrow> sentinel_only (readLocalMetadata w)"
proof (induction rule: reachable.induct)
  case (start w)
  then show ?case by (simp add: sentinel_only_def)
next
  case (step w e m)
  then show ?case by (simp add: app_def serve_keeps_sentinels)
qed

text \<open>
  Claim C2, amended. In every state the server itself produces, and for every caller,
  the list request whose store query returns is answered with exactly the stored
  records whose \<^verbatim>\<open>userId\<close> is the caller's \<^verbatim>\<open>uid\<close>, each as often as it is stored, ordered
  by \<^verbatim>\<open>uploadedAt\<close>, descending. The Firestore backend orders them in the query. The local
  backend returns them in the order of the metadata file, which the upload keeps
  newest-first by prepending; its records all carry the same unresolved timestamp, so
  the order by \<^verbatim>\<open>uploadedAt\<close> holds of any order.
\<close>

theorem list_by_owner:
  assumes reach: "reachable w"
    and auth: "verifyToken (verifyIdToken e) (authorization rq) = Inr u"
    and rt: "route rq = GetDocuments"
    and query: "firestore w \<longrightarrow> get_ok e"
  shows "\<exists>ds. serve e rq w = (Documents ds, w) \<and>
           mset ds = mset (filter (\<lambda>d. userId (snd d) = uid u) (stored_docs w)) \<and>
           newest_first ds \<and>
           (\<not> firestore w \<longrightarrow> ds = filter (\<lambda>d. userId (snd d) = uid u) (readLocalMetadata w))"
proof (cases "firestore w")
  case True
  let ?ds = "orderBy_uploadedAt_desc (filter (\<lambda>d. userId (snd d) = uid u) (coll w))"
  from True query have "serve e rq w = (Documents ?ds, w)"
    by (simp add: serve_authenticated [OF auth] rt list_handler_def remote_query_def)
  moreover have "mset ?ds = mset (filter (\<lambda>d. userId (snd d) = uid u) (stored_docs w))"
    using True by (simp add: mset_orderBy stored_docs_def)
  moreover have "newest_first ?ds" by (rule newest_first_orderBy)
  ultimately show ?thesis using True by blast
next
  case False
  let ?ds = "filter (\<lambda>d. userId (snd d) = uid u) (readLocalMetadata w)"
  from False have "serve e rq w = (Documents ?ds, w)"
    by (simp add: serve_authenticated [OF auth] rt list_handler_def)
  moreover have "mset ?ds = mset (filter (\<lambda>d. userId (snd d) = uid u) (stored_docs w))"
    using False by (simp add: stored_docs_def)
  moreover have "newest_first ?ds"
    using reachable_sentinels [OF reach]
    by (simp add: sentinel_only_filter sentinel_only_newest_first)
  ultimately show ?thesis using False by blast
qed

theorem list_by_owner_witness:
  "(\<exists>ds. serve env_ok \<lparr>authorization = Some ''Bearer ta'', route = GetDocuments\<rparr> remote_world
          = (Documents ds, remote_world) \<and>
         mset ds = {#sample_docs ! 0, sample_docs ! 1#} \<and> newest_first ds) \<and>
   (\<exists>ds. serve env_ok \<lparr>authorization = Some ''Bearer ta'', route = GetDocuments\<rparr>
            (snd (app env_ok \<lparr>json_ok = True, req = alice_upload\<rparr> fresh_local))
          = (Documents ds, snd (app env_ok \<lparr>json_ok = True, req = alice_upload\<rparr> fresh_local)) \<and>
         length ds = 1 \<and> newest_first ds)"
proof -
  let ?rq = "\<lparr>authorization = Some ''Bearer ta'', route = GetDocuments\<rparr>"
  let ?w1 = "snd (app env_ok \<lparr>json_ok = True, req = alice_upload\<rparr> fresh_local)"
  have tok: "verifyToken (verifyIdToken env_ok) (authorization ?rq) = Inr alice"
    by (simp add: alice_token)
  have rt: "route ?rq = GetDocuments" by simp
  have r0: "reachable remote_world"
    by (rule reachable.start) (simp add: remote_world_def readLocalMetadata_def)
  have r1: "reachable ?w1"
    by (rule reachable.step, rule reachable.start) (simp add: fresh_local_def readLocalMetadata_def)
  have q0: "firestore remote_world \<longrightarrow> get_ok env_ok" by (simp add: env_ok_def)
  have w1: "?w1 = snd (serve env_ok alice_upload fresh_local)" by (simp add: app_def)
  from first_upload obtain d where
    d: "readLocalMetadata ?w1 = [(local_id env_ok, d)]" "userId d = uid alice" "\<not> firestore ?w1"
    unfolding w1 by blast
  have q1: "firestore ?w1 \<longrightarrow> get_ok env_ok" by (simp add: env_ok_def)
  from list_by_owner [OF r0 tok rt q0]
  have A: "\<exists>ds. serve env_ok ?rq remote_world = (Documents ds, remote_world) \<and>
         mset ds = {#sample_docs ! 0, sample_docs ! 1#} \<and> newest_first ds"
    by (auto simp: remote_world_facts alice_docs)
  from list_by_owner [OF r1 tok rt q1]
  have B: "\<exists>ds. serve env_ok ?rq ?w1 = (Documents ds, ?w1) \<and> length ds = 1 \<and> newest_first ds"
    using d by auto
  from A B show ?thesis by (rule conjI)
qed

text \<open>
  The claim as stated fails where the Firestore query throws: the caller's records are
  stored, and the answer is 500 without them.
\<close>

theorem remote_list_unavailable:
  "reachable remote_world \<and>
   verifyToken (verifyIdToken env_store_down) (Some ''Bearer ta'') = Inr alice \<and>
   filter (\<lambda>d. userId (snd d) = uid alice) (stored_docs remote_world)
     = [sample_docs ! 0, sample_docs ! 1] \<and>
   serve env_store_down \<lparr>authorization = Some ''Bearer ta'', route = GetDocuments\<rparr> remote_world
     = (Msg 500 False ''Failed to list documents'', remote_world)"
proof -
  have r0: "reachable remote_world"
    by (rule reachable.start) (simp add: remote_world_def readLocalMetadata_def)
  have tok: "verifyToken (verifyIdToken env_store_down) (Some ''Bearer ta'') = Inr alice"
    by (simp add: sample_idp_token sample_envs_idp)
  have "serve env_store_down \<lparr>authorization = Some ''Bearer ta'', route = GetDocuments\<rparr> remote_world
     = (Msg 500 False ''Failed to list documents'', remote_world)"
    by (simp add: serve_def tok list_handler_def remote_query_def remote_world_facts
        sample_env_flags)
  with r0 tok show ?thesis by (simp add: remote_world_facts alice_docs)
qed

section \<open>Authentication\<close>

text \<open>
  Claim C5, amended. A request to a protected route without an Authorization header, or
  with one that does not start with \<^verbatim>\<open>Bearer \<close>, is answered 401 \<^verbatim>\<open>No token provided\<close>, and
  one whose bearer token the identity provider refuses is answered 401 \<^verbatim>\<open>Unauthorized\<close>,
  provided the JSON body parser, which runs before the route, passes the request on;
  when the body parser refuses the body, the answer is 500 \<^verbatim>\<open>Unexpected server error\<close>.
  In every one of these cases no handler runs: the world after the request is the world
  before it.
\<close>

theorem unauthenticated_rejected:
  "((authorization (req m) = None \<or>
     (\<exists>h. authorization (req m) = Some h \<and> \<not> startsWith h ''Bearer ''))
      \<longrightarrow> app e m w =
            (if json_ok m then Msg 401 False ''No token provided''
             else Msg 500 False ''Unexpected server error'', w)) \<and>
   (\<forall>h. authorization (req m) = Some h \<and> startsWith h ''Bearer '' \<and>
        verifyIdToken e (bearer_token h) = None
      \<longrightarrow> app e m w =
            (if json_ok m then Msg 401 False ''Unauthorized''
             else Msg 500 False ''Unexpected server error'', w))"
proof -
  have A: "app e m w =
            (if json_ok m then Msg 401 False ''No token provided''
             else Msg 500 False ''Unexpected server error'', w)"
    if "authorization (req m) = None \<or>
        (\<exists>h. authorization (req m) = Some h \<and> \<not> startsWith h ''Bearer '')"
  proof -
    from that have "verifyToken (verifyIdToken e) (authorization (req m)) =
        Inl (Msg 401 False ''No token provided'')"
      by (auto simp: verifyToken_def)
    then show ?thesis by (simp add: app_def serve_def)
  qed
  have B: "app e m w =
            (if json_ok m then Msg 401 False ''Unauthorized''
             else Msg 500 False ''Unexpected server error'', w)"
    if a: "authorization (req m) = Some h \<and> startsWith h ''Bearer '' \<and>
        verifyIdToken e (bearer_token h) = None" for h
  proof -
    from a have "h \<noteq> []" by auto
    with a have "verifyToken (verifyIdToken e) (authorization (req m)) =
        Inl (Msg 401 False ''Unauthorized'')"
      by (simp add: verifyToken_def)
    then show ?thesis by (simp add: app_def serve_def)
  qed
  from A B show ?thesis by blast
qed

theorem unauthenticated_rejected_witness:
  "app env_ok \<lparr>json_ok = True, req = \<lparr>authorization = None, route = PostUpload (Some sample_pdf)\<rparr>\<rparr>
       local_world
     = (Msg 401 False ''No token provided'', local_world) \<and>
   app env_ok \<lparr>json_ok = True,
               req = \<lparr>authorization = Some ''bearer ta'', route = DeleteDocument ''d1''\<rparr>\<rparr>
       remote_world
     = (Msg 401 False ''No token provided'', remote_world) \<and>
   app env_ok \<lparr>json_ok = True,
               req = \<lparr>authorization = Some ''Bearer forged'', route = DeleteDocument ''d1''\<rparr>\<rparr>
       local_world
     = (Msg 401 False ''Unauthorized'', local_world) \<and>
   app env_ok \<lparr>json_ok = False,
               req = \<lparr>authorization = Some ''Bearer forged'',
                      route = PatchStatus ''d1'' JUndefined\<rparr>\<rparr>
       local_world
     = (Msg 500 False ''Unexpected server error'', local_world)"
proof -
  have 1: "\<not> startsWith ''bearer ta'' ''Bearer ''" by simp
  have 2: "startsWith ''Bearer forged'' ''Bearer ''" by simp
  have 3: "verifyIdToken env_ok (bearer_token ''Bearer forged'') = None"
    by (simp add: env_ok_def bearer_token_def sample_idp_def)
  show ?thesis
    using unauthenticated_rejected [of
        "\<lparr>json_ok = True, req = \<lparr>authorization = None, route = PostUpload (Some sample_pdf)\<rparr>\<rparr>"
        env_ok local_world]
      unauthenticated_rejected [of
        "\<lparr>json_ok = True,
          req = \<lparr>authorization = Some ''bearer ta'', route = DeleteDocument ''d1''\<rparr>\<rparr>"
        env_ok remote_world]
      unauthenticated_rejected [of
        "\<lparr>json_ok = True,
          req = \<lparr>authorization = Some ''Bearer forged'', route = DeleteDocument ''d1''\<rparr>\<rparr>"
        env_ok local_world]
      unauthenticated_rejected [of
        "\<lparr>json_ok = False,
          req = \<lparr>authorization = Some ''Bearer forged'',
                 route = PatchStatus ''d1'' JUndefined\<rparr>\<rparr>"
        env_ok local_world]
      1 2 3
    by simp
qed

text \<open>
  The claim as stated fails for a request without a token whose JSON body does not
  parse: it is answered 500, not 401.
\<close>

theorem unparsable_body_without_token:
  "authorization (req \<lparr>json_ok = False,
        req = \<lparr>authorization = None, route = PatchStatus ''d1'' JUndefined\<rparr>\<rparr>) = None \<and>
   app env_ok \<lparr>json_ok = False,
               req = \<lparr>authorization = None, route = PatchStatus ''d1'' JUndefined\<rparr>\<rparr>
       local_world
     = (Msg 500 False ''Unexpected server error'', local_world) \<and>
   status_code (fst (app env_ok
       \<lparr>json_ok = False, req = \<lparr>authorization = None, route = PatchStatus ''d1'' JUndefined\<rparr>\<rparr>
       local_world)) \<noteq> 401"
  by (simp add: app_def)

section \<open>Concurrency\<close>

lemma dec_no_dash: "CHR ''-'' \<notin> set (dec n)"
proof (induction n rule: dec.induct)
  case (1 n)
  have d: "CHR ''-'' \<noteq> char_of (48 + k)" if "k < 10" for k :: nat
  proof
    assume "CHR ''-'' = char_of (48 + k)"
    then have "(of_char (char_of (48 + k) :: char) :: nat) = of_char CHR ''-''" by simp
    with that show False by simp
  qed
  show ?case
  proof (cases "n < 10")
    case True
    then show ?thesis by (subst dec.simps) (simp add: d)
  next
    case False
    with 1 show ?thesis by (subst dec.simps) (simp add: d)
  qed
qed

lemma dec_value: "foldl (\<lambda>a c. 10 * a + (of_char c - 48)) 0 (dec n) = n"
proof (induction n rule: dec.induct)
  case (1 n)
  show ?case
  proof (cases "n < 10")
    case True
    then show ?thesis by (subst dec.simps) simp
  next
    case False
    have "n mod 10 < 10" by simp
    then have m: "(48 + n mod 10) mod 256 = 48 + n mod 10" by simp
    from False 1 show ?thesis by (subst dec.simps) (simp add: m)
  qed
qed

lemma dec_inj: "dec a = dec b \<Longrightarrow> a = b"
  by (metis dec_value)

lemma takeWhile_upto: "c \<notin> set xs \<Longrightarrow> takeWhile (\<lambda>x. x \<noteq> c) (xs @ c # ys) = xs"
  by (induction xs) auto

lemma split_at_dash:
  assumes "CHR ''-'' \<notin> set xs" "CHR ''-'' \<notin> set xs'"
    and eq: "xs @ CHR ''-'' # ys = xs' @ CHR ''-'' # ys'"
  shows "xs = xs' \<and> ys = ys'"
proof -
  have "takeWhile (\<lambda>c. c \<noteq> CHR ''-'') (xs @ CHR ''-'' # ys) = xs"
    using assms(1) by (rule takeWhile_upto)
  moreover have "takeWhile (\<lambda>c. c \<noteq> CHR ''-'') (xs' @ CHR ''-'' # ys') = xs'"
    using assms(2) by (rule takeWhile_upto)
  ultimately have "xs = xs'" using eq by simp
  with eq show ?thesis by simp
qed

lemma local_id_inj:
  "local_id e = local_id e' \<Longrightarrow> now_id e = now_id e' \<and> rnd_id e = rnd_id e'"
proof -
  assume "local_id e = local_id e'"
  then have "dec (now_id e) @ CHR ''-'' # dec (rnd_id e) = dec (now_id e') @ CHR ''-'' # dec (rnd_id e')"
    by (simp add: local_id_def)
  from split_at_dash [OF dec_no_dash dec_no_dash this] show ?thesis
    by (simp add: dec_inj)
qed

lemma valid_create_step:
  assumes v: "valid_create c" and loc: "\<not> firestore w"
  shows "\<exists>d. readLocalMetadata (snd (serve (fst c) (snd c) w)) =
               (local_id (fst c), d) # readLocalMetadata w \<and>
             \<not> firestore (snd (serve (fst c) (snd c) w))"
proof -
  from v obtain u f where
    auth: "verifyToken (verifyIdToken (fst c)) (authorization (snd c)) = Inr u"
    and rt: "route (snd c) = PostUpload (Some f)"
    and ok: "fileFilter f" "size_bytes f \<le> MAX_FILE_SIZE_BYTES"
    and wr: "write_ok (fst c)"
    by (auto simp: valid_create_def split: sum.splits route.splits option.splits)
  from local_create_step [OF auth rt ok loc] obtain d p where
    "serve (fst c) (snd c) w =
       (Created ''File uploaded & metadata saved locally'' (local_id (fst c)) d,
        writeLocalMetadata (fst c) ((local_id (fst c), d) # readLocalMetadata w)
          (w\<lparr>disk := insert p (disk w)\<rparr>))"
    by blast
  with wr loc show ?thesis
    by (simp add: writeLocalMetadata_def readLocalMetadata_def)
qed

lemma run_creates:
  assumes "\<forall>c \<in> set cs. valid_create c" and "\<not> firestore w"
  shows "map fst (readLocalMetadata (run cs w)) =
           rev (map (\<lambda>c. local_id (fst c)) cs) @ map fst (readLocalMetadata w)"
  using assms
proof (induction cs arbitrary: w)
  case Nil
  then show ?case by simp
next
  case (Cons c cs)
  from Cons.prems have v: "valid_create c" and rest: "\<forall>c \<in> set cs. valid_create c" by simp_all
  from valid_create_step [OF v Cons.prems(2)] obtain d where
    d: "readLocalMetadata (snd (serve (fst c) (snd c) w)) = (local_id (fst c), d) # readLocalMetadata w"
    and loc: "\<not> firestore (snd (serve (fst c) (snd c) w))"
    by blast
  from Cons.IH [OF rest loc] d show ?case by simp
qed

text \<open>
  Claim C9, amended. Create calls served by one process do not interleave, so whatever
  the order in which they are served, N create calls against an empty local store,
  each a valid upload that finds the metadata file writable, leave a file of exactly N
  records, one per call and none lost, the newest first. Their ids are distinct
  whenever no two calls draw both the same \<^verbatim>\<open>Date.now()\<close> and the same random number.
\<close>

theorem serial_creates:
  assumes loc: "\<not> firestore w"
    and empty: "readLocalMetadata w = []"
    and valid: "\<forall>c \<in> set cs. valid_create c"
  shows "length (readLocalMetadata (run cs w)) = length cs \<and>
         map fst (readLocalMetadata (run cs w)) = rev (map (\<lambda>c. local_id (fst c)) cs) \<and>
         (distinct (map (\<lambda>c. (now_id (fst c), rnd_id (fst c))) cs) \<longrightarrow>
            distinct (map fst (readLocalMetadata (run cs w))))"
proof -
  have ids: "map fst (readLocalMetadata (run cs w)) = rev (map (\<lambda>c. local_id (fst c)) cs)"
    using run_creates [OF valid loc] empty by simp
  then have "length (map fst (readLocalMetadata (run cs w))) = length cs" by simp
  then have len: "length (readLocalMetadata (run cs w)) = length cs" by simp
  have "distinct (map (\<lambda>c. local_id (fst c)) cs)"
    if "distinct (map (\<lambda>c. (now_id (fst c), rnd_id (fst c))) cs)"
  proof -
    from that have "distinct cs" "inj_on (\<lambda>c. (now_id (fst c), rnd_id (fst c))) (set cs)"
      by (simp_all add: distinct_map)
    then have "inj_on (\<lambda>c. local_id (fst c)) (set cs)"
      by (auto simp: inj_on_def dest!: local_id_inj)
    with \<open>distinct cs\<close> show ?thesis by (simp add: distinct_map)
  qed
  with ids len show ?thesis by simp
qed

lemma sample_creates_valid:
  "valid_create (env_ok, alice_upload)" "valid_create (env_twin, alice_upload)"
  "valid_create (env_later, bob_upload)"
proof -
  have t: "verifyToken (verifyIdToken env_later) (authorization bob_upload) = Inr bob"
    by (simp add: bob_upload_def sample_idp_token_bob sample_envs_idp)
  have w: "write_ok env_ok" "write_ok env_twin" "write_ok env_later"
    by (simp_all add: env_ok_def env_twin_def env_later_def)
  show "valid_create (env_ok, alice_upload)" "valid_create (env_twin, alice_upload)"
    "valid_create (env_later, bob_upload)"
    by (simp_all add: valid_create_def upload_tokens t sample_pdf_passes w)
qed

lemma sample_ids: "local_id env_ok = ''local-18-6''" "local_id env_twin = ''local-18-6''"
  "local_id env_later = ''local-918-6''"
  by (simp_all add: local_id_def env_ok_def env_twin_def env_later_def dec_samples)

theorem serial_creates_witness:
  "length (readLocalMetadata (run [(env_ok, alice_upload), (env_later, bob_upload)] fresh_local)) = 2 \<and>
   map fst (readLocalMetadata (run [(env_ok, alice_upload), (env_later, bob_upload)] fresh_local))
     = [''local-918-6'', ''local-18-6''] \<and>
   distinct (map fst
     (readLocalMetadata (run [(env_ok, alice_upload), (env_later, bob_upload)] fresh_local)))"
proof -
  have loc: "\<not> firestore fresh_local" and empty: "readLocalMetadata fresh_local = []"
    by (simp_all add: fresh_local_def readLocalMetadata_def)
  have v: "\<forall>c \<in> set [(env_ok, alice_upload), (env_later, bob_upload)]. valid_create c"
    by (simp add: sample_creates_valid)
  have p: "distinct (map (\<lambda>c. (now_id (fst c), rnd_id (fst c)))
      [(env_ok, alice_upload), (env_later, bob_upload)])"
    by (simp add: env_ok_def env_later_def)
  from serial_creates [OF loc empty v] p show ?thesis
    by (simp add: sample_ids)
qed

text \<open>
  The claim as stated fails for two calls that draw the same time and the same random
  number: both records are stored, under one id.
\<close>

theorem equal_draws_equal_ids:
  "valid_create (env_ok, alice_upload) \<and> valid_create (env_twin, alice_upload) \<and>
   readLocalMetadata fresh_local = [] \<and>
   map fst (readLocalMetadata (run [(env_ok, alice_upload), (env_twin, alice_upload)] fresh_local))
     = [''local-18-6'', ''local-18-6''] \<and>
   \<not> distinct (map fst
     (readLocalMetadata (run [(env_ok, alice_upload), (env_twin, alice_upload)] fresh_local)))"
proof -
  have loc: "\<not> firestore fresh_local" and empty: "readLocalMetadata fresh_local = []"
    by (simp_all add: fresh_local_def readLocalMetadata_def)
  have v: "\<forall>c \<in> set [(env_ok, alice_upload), (env_twin, alice_upload)]. valid_create c"
    by (simp add: sample_creates_valid)
  from run_creates [OF v loc] empty
  have "map fst (readLocalMetadata (run [(env_ok, alice_upload), (env_twin, alice_upload)] fresh_local))
     = [''local-18-6'', ''local-18-6'']"
    by (simp add: sample_ids)
  with empty show ?thesis by (simp add: sample_creates_valid)
qed

text \<open>
  Nothing serialises the cycle between processes: when two of them read the file before
  either writes, the second write drops the record of the first.
\<close>

lemma interleaved_writes_lose_a_record:
  assumes "write_ok e" "write_ok e'"
  shows "readLocalMetadata
           (writeLocalMetadata e' (b # readLocalMetadata w)
              (writeLocalMetadata e (a # readLocalMetadata w) w))
         = b # readLocalMetadata w"
  using assms by (simp add: read_after_write)

end
